theory Spec2Isabelle
  imports Complex_Main "HOL-Library.Word"
begin

section \<open>JavaScript values used by the detection pipeline\<close>

text \<open>
  A JavaScript \<open>Error\<close> is modelled by its message; a call that may throw (or a promise
  that may reject) returns \<open>Inl\<close> of the error, otherwise \<open>Inr\<close> of its value.
\<close>

datatype js_error = Error (msg: string)

type_synonym 'a result = "js_error + 'a"

text \<open>
  The numbers held by a \<open>Float32Array\<close>: finite values (as reals; only comparisons and
  the division by 255 are ever applied to them), the two infinities and NaN.
\<close>

datatype jsnum = NaN | NegInf | Fin real | PosInf

text \<open>The relational operator \<open>a > b\<close> on numbers: false whenever NaN is involved.\<close>

fun js_gt :: "jsnum \<Rightarrow> jsnum \<Rightarrow> bool" where
  "js_gt NaN _ = False"
| "js_gt _ NaN = False"
| "js_gt NegInf _ = False"
| "js_gt (Fin a) NegInf = True"
| "js_gt (Fin a) (Fin b) = (b < a)"
| "js_gt (Fin a) PosInf = False"
| "js_gt PosInf PosInf = False"
| "js_gt PosInf _ = True"

text \<open>Strict equality \<open>a === b\<close> on numbers: NaN is not equal to itself.\<close>

definition js_seq :: "jsnum \<Rightarrow> jsnum \<Rightarrow> bool" where
  "js_seq a b = (a \<noteq> NaN \<and> a = b)"

text \<open>
  \<open>Math.max\<close> of two arguments, and of an argument list that the call accepts
  (\<open>Math.max()\<close> is \<open>-Infinity\<close>).
\<close>

definition js_max2 :: "jsnum \<Rightarrow> jsnum \<Rightarrow> jsnum" where
  "js_max2 a b = (if a = NaN \<or> b = NaN then NaN else if js_gt b a then b else a)"

definition max_of :: "jsnum list \<Rightarrow> jsnum" where
  "max_of xs = foldl js_max2 NegInf xs"

text \<open>
  \<open>Math.max(...data)\<close> spreads the whole array into the arguments of one call. The
  engine accepts only so many arguments (the bound depends on the engine and its stack
  size and is a parameter here); beyond it the call throws a \<open>RangeError\<close>.
\<close>

definition math_max :: "nat \<Rightarrow> jsnum list \<Rightarrow> jsnum result" where
  "math_max argLimit xs =
     (if argLimit < length xs then Inl (Error ''Maximum call stack size exceeded'')
      else Inr (max_of xs))"

text \<open>\<open>data.indexOf(v)\<close>: the first index holding a value strictly equal to \<open>v\<close>, else -1.\<close>

fun indexOf_from :: "int \<Rightarrow> jsnum list \<Rightarrow> jsnum \<Rightarrow> int" where
  "indexOf_from i [] v = -1"
| "indexOf_from i (x # xs) v = (if js_seq x v then i else indexOf_from (i + 1) xs v)"

definition indexOf :: "jsnum list \<Rightarrow> jsnum \<Rightarrow> int" where
  "indexOf xs v = indexOf_from 0 xs v"

text \<open>\<open>data[i]\<close> on a typed array: \<open>undefined\<close> (None) outside the array.\<close>

definition js_index :: "jsnum list \<Rightarrow> int \<Rightarrow> jsnum option" where
  "js_index xs i = (if 0 \<le> i \<and> i < int (length xs) then Some (xs ! nat i) else None)"

text \<open>
  \<open>a > b\<close> where either side may be \<open>undefined\<close>: \<open>undefined\<close> converts to NaN, so the
  comparison is false.
\<close>

fun js_gt_val :: "jsnum option \<Rightarrow> jsnum option \<Rightarrow> bool" where
  "js_gt_val (Some a) (Some b) = js_gt a b"
| "js_gt_val _ _ = False"

subsection \<open>Strings\<close>

text \<open>Template-literal rendering of a non-negative integer.\<close>

definition digit_char :: "nat \<Rightarrow> char" where
  "digit_char d = (''0123456789'' ! d)"

function show_nat :: "nat \<Rightarrow> string" where
  "show_nat n = (if n < 10 then [digit_char n] else show_nat (n div 10) @ [digit_char (n mod 10)])"
  by pat_completeness auto
termination
  by (relation "measure id") auto

declare show_nat.simps [simp del]

text \<open>\<open>String.prototype.toUpperCase\<close> on ASCII text.\<close>

definition upper_char :: "char \<Rightarrow> char" where
  "upper_char c =
     (case map_of (zip ''abcdefghijklmnopqrstuvwxyz'' ''ABCDEFGHIJKLMNOPQRSTUVWXYZ'') c of
        Some u \<Rightarrow> u | None \<Rightarrow> c)"

definition toUpperCase :: "string \<Rightarrow> string" where
  "toUpperCase s = map upper_char s"

text \<open>\<open>s.includes(t)\<close>: \<open>t\<close> occurs as a contiguous substring of \<open>s\<close>.\<close>

fun starts_with :: "string \<Rightarrow> string \<Rightarrow> bool" where
  "starts_with s [] = True"
| "starts_with [] (c # t) = False"
| "starts_with (d # s) (c # t) = (d = c \<and> starts_with s t)"

fun str_includes :: "string \<Rightarrow> string \<Rightarrow> bool" where
  "str_includes [] t = (t = [])"
| "str_includes (c # s) t = (starts_with (c # s) t \<or> str_includes s t)"

section \<open>Labels and recommendations (controllers/detectionController.js)\<close>

definition labelMap :: "int \<rightharpoonup> string" where
  "labelMap = map_of
     [(0, ''Early Blight''),
      (1, ''Healthy''),
      (2, ''Late Blight''),
      (3, ''Leaf Miner''),
      (4, ''Leaf Mold''),
      (5, ''Mosaic Virus''),
      (6, ''Septoria''),
      (7, ''Spider Mites''),
      (8, ''Yellow Leaf Curl Virus'')]"

text \<open>\<open>labelMap[classIndex] || "Unknown"\<close> (no label of the table is the empty string).\<close>

definition diseaseName :: "int \<Rightarrow> string" where
  "diseaseName i = (case labelMap i of Some l \<Rightarrow> (if l = [] then ''Unknown'' else l)
                    | None \<Rightarrow> ''Unknown'')"

definition recommendations :: "string \<rightharpoonup> string list" where
  "recommendations = map_of
     [(''Early Blight'',
        [''Remove infected leaves immediately'',
         ''Apply copper-based fungicides'',
         ''Maintain proper plant spacing for airflow'',
         ''Avoid overhead watering to prevent spore spread'']),
      (''Late Blight'',
        [''Remove and destroy all infected plant material'',
         ''Apply fungicides preventively in humid conditions'',
         ''Ensure good air circulation around plants'',
         ''Use resistant varieties in future plantings'']),
      (''Leaf Miner'',
        [''Remove and destroy affected leaves'',
         ''Use yellow sticky traps to monitor and catch adults'',
         ''Apply neem oil or insecticidal soap'',
         ''Introduce natural predators like parasitic wasps'']),
      (''Leaf Mold'',
        [''Improve air circulation around plants'',
         ''Reduce humidity in growing environment'',
         ''Apply fungicides at first sign of infection'',
         ''Avoid overhead watering to keep foliage dry'']),
      (''Mosaic Virus'',
        [''Remove and destroy infected plants completely'',
         ''Control aphids and other insects that spread the virus'',
         ''Wash hands and tools after handling infected plants'',
         ''Plant resistant varieties in future'']),
      (''Septoria'',
        [''Remove infected leaves to prevent spread'',
         ''Apply fungicide at first sign of infection'',
         ''Maintain proper plant spacing'',
         ''Avoid overhead watering to keep foliage dry'']),
      (''Spider Mites'',
        [''Spray plants with strong stream of water to dislodge mites'',
         ''Apply insecticidal soap or neem oil to affected areas'',
         ''Increase humidity around plants'',
         ''Introduce predatory mites as biological control'']),
      (''Yellow Leaf Curl Virus'',
        [''Remove and destroy all infected plants'',
         ''Control whitefly populations with sticky traps'',
         ''Use reflective mulches to repel whiteflies'',
         ''Plant resistant varieties in future'']),
      (''Healthy'',
        [''Continue regular maintenance'',
         ''Monitor plants regularly for early signs of disease'',
         ''Maintain proper watering and fertilization schedule'',
         ''Ensure good air circulation around plants''])]"

definition getRecommendations :: "string \<Rightarrow> string list" where
  "getRecommendations d =
     (case recommendations d of
        Some r \<Rightarrow> r
      | None \<Rightarrow>
          [''Consult with a plant pathologist for specific recommendations'',
           ''Monitor the plant closely for changes in symptoms'',
           ''Ensure proper growing conditions (light, water, nutrients)''])"

section \<open>Per-model results and the primary result\<close>

text \<open>
  One entry of the response: the per-model entries carry no \<open>model\<close> field, the primary
  entry (\<open>analysis\<close>) names the model it was taken from.
\<close>

record entry =
  disease :: string
  confidence :: "jsnum option"
  recommendations_of :: "string list"
  model :: "string option"

text \<open>\<open>data.indexOf(Math.max(...data))\<close>.\<close>

definition classIndex :: "nat \<Rightarrow> jsnum list \<Rightarrow> int result" where
  "classIndex argLimit xs =
     (case math_max argLimit xs of Inl e \<Rightarrow> Inl e | Inr v \<Rightarrow> Inr (indexOf xs v))"

text \<open>
  The per-model entry for a class index: confidence \<open>data[classIndex]\<close>, label
  \<open>labelMap[classIndex] || "Unknown"\<close> and recommendations.
\<close>

definition entryAt :: "jsnum list \<Rightarrow> int \<Rightarrow> entry" where
  "entryAt xs i =
     (let d = diseaseName i in
      \<lparr>disease = d, confidence = js_index xs i,
       recommendations_of = getRecommendations d, model = None\<rparr>)"

text \<open>The per-model entry built from a model's output vector, or the error thrown.\<close>

definition modelEntry :: "nat \<Rightarrow> jsnum list \<Rightarrow> entry result" where
  "modelEntry argLimit xs =
     (case classIndex argLimit xs of Inl e \<Rightarrow> Inl e | Inr i \<Rightarrow> Inr (entryAt xs i))"

text \<open>
  The \<open>analysis\<close> field, written out identically in \<open>analyzeImage\<close> and
  \<open>analyzeStream\<close>:
  \<open>yolov5Confidence > yolov7Confidence ? {...yolov5, model: "YOLOv5"} : {...yolov7, model: "YOLOv7"}\<close>.
\<close>

definition primaryAnalysis :: "entry \<Rightarrow> entry \<Rightarrow> entry" where
  "primaryAnalysis y5 y7 =
     (if js_gt_val (confidence y5) (confidence y7)
      then y5\<lparr>model := Some ''YOLOv5''\<rparr>
      else y7\<lparr>model := Some ''YOLOv7''\<rparr>)"

section \<open>Tensors and model handles\<close>

record tensor =
  shape :: "nat list"
  vals :: "jsnum list"

text \<open>
  A loaded \<open>tf.GraphModel\<close>: its forward pass either throws or yields the output vector
  that \<open>prediction.data()\<close> reads.
\<close>

datatype graph_model = GraphModel (predict: "tensor \<Rightarrow> jsnum list result")

definition zeros :: "nat list \<Rightarrow> tensor" where
  "zeros s = \<lparr>shape = s, vals = replicate (prod_list s) (Fin 0)\<rparr>"

section \<open>Model lifecycle (utils/modelInitialization.js)\<close>

record model_config =
  modelPath :: string
  warmupShape :: "nat list"
  timeout :: nat
  retryAttempts :: nat
  retryDelay :: nat

definition MODEL_CONFIG :: "string \<rightharpoonup> model_config" where
  "MODEL_CONFIG = map_of
     [(''yolov5'',
        \<lparr>modelPath = ''../models/yolov5/yolov5_model.json'', warmupShape = [1, 640, 640, 3],
         timeout = 60000, retryAttempts = 3, retryDelay = 5000\<rparr>),
      (''yolov7'',
        \<lparr>modelPath = ''../models/yolov7/yolov7_model.json'', warmupShape = [1, 640, 640, 3],
         timeout = 60000, retryAttempts = 3, retryDelay = 5000\<rparr>)]"

text \<open>
  What settles first in \<open>Promise.race([tf.loadGraphModel(modelUrl), timeoutPromise])\<close>:
  the load resolves, the load rejects, or the timer fires.
\<close>

datatype race_outcome = Loaded graph_model | LoadRejected js_error | TimerFirst

text \<open>
  The surroundings of the loader: \<open>path.join(__dirname, p)\<close>, whether \<open>fs.access\<close>
  succeeds on a path, and how the race of the given attempt on a model URL ends.
\<close>

record loader_env =
  path_join :: "string \<Rightarrow> string"
  fs_access :: "string \<Rightarrow> bool"
  race :: "string \<Rightarrow> nat \<Rightarrow> race_outcome"

text \<open>
  The observable steps of a load: a call of \<open>tf.loadGraphModel\<close> (URL and attempt
  number), a wait of \<open>retryDelay\<close> milliseconds, the warmup inference (and whether it
  succeeded; a failure is only logged), and the write to the cache. Console logging is
  not modelled.
\<close>

datatype load_event =
  LoadAttempt string nat
| RetryWait nat
| Warmup string bool
| CacheSet string

record registry =
  modelCache :: "string \<rightharpoonup> graph_model"
  trace :: "load_event list"

definition emit :: "load_event list \<Rightarrow> registry \<Rightarrow> registry" where
  "emit es reg = reg\<lparr>trace := trace reg @ es\<rparr>"

text \<open>\<open>checkModelFiles\<close>: the full path of the model file, or the error thrown.\<close>

definition checkModelFiles ::
  "(string \<rightharpoonup> model_config) \<Rightarrow> loader_env \<Rightarrow> string \<Rightarrow> string result" where
  "checkModelFiles C env modelName =
     (case C modelName of
        None \<Rightarrow> Inl (Error (''Unknown model: '' @ modelName))
      | Some cfg \<Rightarrow>
          (let p = path_join env (modelPath cfg) in
           if fs_access env p then Inr p
           else Inl (Error (toUpperCase modelName
                            @ '' model file not found. See console for details.''))))"

text \<open>\<open>warmupModel\<close>: one forward pass on zeros; whether it went through.\<close>

definition warmupModel :: "model_config \<Rightarrow> graph_model \<Rightarrow> bool" where
  "warmupModel cfg m = (case predict m (zeros (warmupShape cfg)) of Inl e \<Rightarrow> False | Inr d \<Rightarrow> True)"

text \<open>The error a single attempt ends with, if it fails.\<close>

definition attempt_error :: "model_config \<Rightarrow> race_outcome \<Rightarrow> js_error option" where
  "attempt_error cfg r =
     (case r of
        Loaded m \<Rightarrow> None
      | LoadRejected e \<Rightarrow> Some e
      | TimerFirst \<Rightarrow>
          Some (Error (''Model loading timed out after '' @ show_nat (timeout cfg) @ ''ms'')))"

text \<open>
  The loop \<open>for (let attempt = 1; attempt <= config.retryAttempts; attempt++)\<close> of
  \<open>loadModelWithRetry\<close> together with the code after it, from a given attempt number
  and \<open>lastError\<close> (None is \<open>null\<close>).
\<close>

function retry_loop ::
  "model_config \<Rightarrow> loader_env \<Rightarrow> string \<Rightarrow> string \<Rightarrow> nat \<Rightarrow> js_error option \<Rightarrow> registry
   \<Rightarrow> graph_model result \<times> registry" where
  "retry_loop cfg env modelName modelUrl attempt lastError reg =
     (if attempt \<le> retryAttempts cfg then
        (let reg1 = emit [LoadAttempt modelUrl attempt] reg in
         case race env modelUrl attempt of
           Loaded m \<Rightarrow>
             (Inr m,
              (emit [Warmup modelName (warmupModel cfg m), CacheSet modelName] reg1)
                \<lparr>modelCache := (modelCache reg1)(modelName \<mapsto> m)\<rparr>)
         | r \<Rightarrow>
             (let reg2 = (if attempt < retryAttempts cfg
                          then emit [RetryWait (retryDelay cfg)] reg1 else reg1)
              in retry_loop cfg env modelName modelUrl (attempt + 1) (attempt_error cfg r) reg2))
      else
        (case lastError of
           None \<Rightarrow> (Inl (Error ''Cannot read properties of null (reading 'message')''), reg)
         | Some e \<Rightarrow>
             (Inl (Error (''Failed to load '' @ toUpperCase modelName @ '' model after ''
                          @ show_nat (retryAttempts cfg) @ '' attempts: '' @ msg e)), reg)))"
  by pat_completeness auto
termination
  by (relation "measure (\<lambda>(cfg, env, n, u, attempt, e, reg). Suc (retryAttempts cfg) - attempt)") auto

declare retry_loop.simps [simp del]

text \<open>
  \<open>loadModelWithRetry\<close>. \<open>checkModelFiles\<close> has already thrown for a name without
  configuration, so the loop only ever runs with \<open>config\<close> defined.
\<close>

definition loadModelWithRetry ::
  "(string \<rightharpoonup> model_config) \<Rightarrow> loader_env \<Rightarrow> string \<Rightarrow> registry
   \<Rightarrow> graph_model result \<times> registry" where
  "loadModelWithRetry C env modelName reg =
     (case checkModelFiles C env modelName of
        Inl e \<Rightarrow> (Inl e, reg)
      | Inr p \<Rightarrow>
          (case C modelName of
             None \<Rightarrow> (Inl (Error (''Unknown model: '' @ modelName)), reg)
           | Some cfg \<Rightarrow> retry_loop cfg env modelName (''file://'' @ p) 1 None reg))"

text \<open>
  \<open>getModel\<close> runs without interruption up to its cache lookup: the name is unknown,
  the model is cached, or a load is started.
\<close>

datatype lookup = UnknownModel js_error | Cached graph_model | StartLoad

definition getModel_lookup :: "(string \<rightharpoonup> model_config) \<Rightarrow> string \<Rightarrow> registry \<Rightarrow> lookup" where
  "getModel_lookup C modelName reg =
     (case C modelName of
        None \<Rightarrow> UnknownModel (Error (''Unknown model: '' @ modelName))
      | Some cfg \<Rightarrow>
          (case modelCache reg modelName of Some m \<Rightarrow> Cached m | None \<Rightarrow> StartLoad))"

definition getModel ::
  "(string \<rightharpoonup> model_config) \<Rightarrow> loader_env \<Rightarrow> string \<Rightarrow> registry
   \<Rightarrow> graph_model result \<times> registry" where
  "getModel C env modelName reg =
     (case getModel_lookup C modelName reg of
        UnknownModel e \<Rightarrow> (Inl e, reg)
      | Cached m \<Rightarrow> (Inr m, reg)
      | StartLoad \<Rightarrow> loadModelWithRetry C env modelName reg)"

text \<open>The number of \<open>tf.loadGraphModel\<close> calls and of retry waits recorded so far.\<close>

fun isLoadAttempt :: "load_event \<Rightarrow> bool" where
  "isLoadAttempt (LoadAttempt u k) = True"
| "isLoadAttempt _ = False"

fun isRetryWait :: "load_event \<Rightarrow> bool" where
  "isRetryWait (RetryWait d) = True"
| "isRetryWait _ = False"

definition loadCount :: "registry \<Rightarrow> nat" where
  "loadCount reg = length (filter isLoadAttempt (trace reg))"

definition waitCount :: "registry \<Rightarrow> nat" where
  "waitCount reg = length (filter isRetryWait (trace reg))"

subsection \<open>Callers of \<open>getModel\<close> that overlap in time\<close>

text \<open>
  Several callers ask for the same model. A caller's call runs \<open>getModel\<close> up to the
  cache lookup; when a load was started, the caller is in flight until that load has run
  to its end (\<open>loadModelWithRetry\<close> never reads the cache, it only writes it). A
  schedule lists the order of calls and completions.
\<close>

datatype caller = NotCalled | InFlight | Returned "graph_model result"

datatype sched_event = Call nat | Finish nat

fun sched_step ::
  "(string \<rightharpoonup> model_config) \<Rightarrow> loader_env \<Rightarrow> string \<Rightarrow> registry \<times> caller list \<Rightarrow> sched_event
   \<Rightarrow> registry \<times> caller list" where
  "sched_step C env modelName (reg, cs) (Call i) =
     (if i < length cs then
        (case cs ! i of
           NotCalled \<Rightarrow>
             (case getModel_lookup C modelName reg of
                UnknownModel e \<Rightarrow> (reg, cs[i := Returned (Inl e)])
              | Cached m \<Rightarrow> (reg, cs[i := Returned (Inr m)])
              | StartLoad \<Rightarrow> (reg, cs[i := InFlight]))
         | InFlight \<Rightarrow> (reg, cs)
         | Returned r \<Rightarrow> (reg, cs))
      else (reg, cs))"
| "sched_step C env modelName (reg, cs) (Finish i) =
     (if i < length cs then
        (case cs ! i of
           InFlight \<Rightarrow>
             (case loadModelWithRetry C env modelName reg of
                (r, reg') \<Rightarrow> (reg', cs[i := Returned r]))
         | NotCalled \<Rightarrow> (reg, cs)
         | Returned r \<Rightarrow> (reg, cs))
      else (reg, cs))"

definition run_schedule ::
  "(string \<rightharpoonup> model_config) \<Rightarrow> loader_env \<Rightarrow> string \<Rightarrow> sched_event list
   \<Rightarrow> registry \<times> caller list \<Rightarrow> registry \<times> caller list" where
  "run_schedule C env modelName sched st = foldl (sched_step C env modelName) st sched"

section \<open>Image processing (utils/imageProcessor.js)\<close>

type_synonym bytes = "8 word list"

text \<open>
  The tensor \<open>tf.node.decodeImage\<close> returns: an \<open>int32\<close> tensor holding the decoded
  8-bit channel values.
\<close>

record int_tensor =
  ishape :: "nat list"
  ivals :: "8 word list"

datatype fit = Contain | Cover | Fill | Inside | Outside

record resize_options =
  rwidth :: nat
  rheight :: nat
  rfit :: fit
  background :: "nat \<times> nat \<times> nat"

text \<open>
  The libraries and the runtime, which are not part of the repository:
  \<open>sharp(file).metadata()\<close> (width and height), \<open>sharp(input).resize(w, h, opts)\<close>,
  \<open>tf.node.decodeImage(buffer, channels)\<close>, \<open>Buffer.from(s, "base64")\<close>,
  \<open>path.resolve\<close>, the message of the error a file-system call raises for a missing
  path, and the number of arguments the engine accepts in one call.
\<close>

record libs =
  sharp_metadata :: "bytes \<Rightarrow> (nat \<times> nat) result"
  sharp_resize :: "bytes \<Rightarrow> resize_options \<Rightarrow> bytes result"
  decodeImage :: "bytes \<Rightarrow> nat \<Rightarrow> int_tensor result"
  base64_decode :: "string \<Rightarrow> bytes"
  path_resolve :: "string \<Rightarrow> string"
  fs_error :: "string \<Rightarrow> string \<Rightarrow> string"
  spread_limit :: nat

text \<open>
  What a request can change and what is observed of it: the files on disk, the number of
  live tensors (\<open>tf.memory().numTensors\<close>), and the calls made to the model manager, to
  the models (with the outcome of each forward pass) and to \<open>fs.unlink\<close>.
\<close>

datatype event = GetModel string | Predict string "jsnum list result" | Unlink string

record world =
  files :: "string \<rightharpoonup> bytes"
  numTensors :: nat
  calls :: "event list"

definition alloc :: "nat \<Rightarrow> world \<Rightarrow> world" where
  "alloc n w = w\<lparr>numTensors := numTensors w + n\<rparr>"

definition dispose :: "nat \<Rightarrow> world \<Rightarrow> world" where
  "dispose n w = w\<lparr>numTensors := numTensors w - n\<rparr>"

definition record_call :: "event \<Rightarrow> world \<Rightarrow> world" where
  "record_call e w = w\<lparr>calls := calls w @ [e]\<rparr>"

text \<open>The calls made between two states of the world, and the unlink calls among them.\<close>

definition request_events :: "world \<Rightarrow> world \<Rightarrow> event list" where
  "request_events w w' = drop (length (calls w)) (calls w')"

fun isUnlink :: "event \<Rightarrow> bool" where
  "isUnlink (Unlink p) = True"
| "isUnlink _ = False"

text \<open>\<open>image.div(tf.scalar(255.0))\<close> and \<open>normalized.expandDims(0)\<close>.\<close>

definition div255 :: "int_tensor \<Rightarrow> tensor" where
  "div255 img = \<lparr>shape = ishape img, vals = map (\<lambda>p. Fin (real (unat p) / 255)) (ivals img)\<rparr>"

definition expandDims0 :: "tensor \<Rightarrow> tensor" where
  "expandDims0 t = t\<lparr>shape := 1 # shape t\<rparr>"

text \<open>
  The lines shared by \<open>preprocessImage\<close> and \<open>processImageBuffer\<close> after the decoding:
  \<open>tf.tidy\<close> allocates the scalar and the quotient and releases the scalar,
  \<open>expandDims\<close> allocates the batched tensor, and \<open>image.dispose()\<close> releases the
  decoded image. The normalized tensor is not released.
\<close>

definition normalizeAndBatch :: "int_tensor \<Rightarrow> world \<Rightarrow> tensor \<times> world" where
  "normalizeAndBatch img w =
     (let w1 = dispose 1 (alloc 2 w);
          normalized = div255 img;
          w2 = alloc 1 w1;
          batched = expandDims0 normalized;
          w3 = dispose 1 w2
      in (batched, w3))"

definition preprocessImage :: "libs \<Rightarrow> string \<Rightarrow> world \<Rightarrow> tensor result \<times> world" where
  "preprocessImage L imagePath w =
     (case files w imagePath of
        None \<Rightarrow> (Inl (Error (''Image preprocessing failed: '' @ fs_error L ''open'' imagePath)), w)
      | Some imageBuffer \<Rightarrow>
          (case decodeImage L imageBuffer 3 of
             Inl e \<Rightarrow> (Inl (Error (''Image preprocessing failed: '' @ msg e)), w)
           | Inr img \<Rightarrow>
               (case normalizeAndBatch img (alloc 1 w) of (batched, w') \<Rightarrow> (Inr batched, w'))))"

record size_options =
  width :: "nat option"
  height :: "nat option"

definition with_default :: "'a \<Rightarrow> 'a option \<Rightarrow> 'a" where
  "with_default d v = (case v of None \<Rightarrow> d | Some x \<Rightarrow> x)"

definition processImageBuffer ::
  "libs \<Rightarrow> bytes \<Rightarrow> size_options \<Rightarrow> world \<Rightarrow> tensor result \<times> world" where
  "processImageBuffer L imageBuffer options w =
     (case sharp_resize L imageBuffer
             \<lparr>rwidth = with_default 640 (width options), rheight = with_default 640 (height options),
              rfit = Contain, background = (0, 0, 0)\<rparr> of
        Inl e \<Rightarrow> (Inl (Error (''Buffer processing failed: '' @ msg e)), w)
      | Inr resizedBuffer \<Rightarrow>
          (case decodeImage L resizedBuffer 3 of
             Inl e \<Rightarrow> (Inl (Error (''Buffer processing failed: '' @ msg e)), w)
           | Inr img \<Rightarrow>
               (case normalizeAndBatch img (alloc 1 w) of (batched, w') \<Rightarrow> (Inr batched, w'))))"

text \<open>\<open>s.split(",")[1]\<close>: the text between the first and the second comma, if any.\<close>

definition split_comma_1 :: "string \<Rightarrow> string option" where
  "split_comma_1 s =
     (case dropWhile (\<lambda>c. c \<noteq> CHR '','') s of
        [] \<Rightarrow> None
      | c # rest \<Rightarrow> Some (takeWhile (\<lambda>c. c \<noteq> CHR '','') rest))"

datatype frame = Buffer bytes | Base64 string | OtherInput

text \<open>
  \<open>processStreamFrame\<close> returns the promise of \<open>processImageBuffer\<close> without awaiting
  it, so an error of the latter is not wrapped a second time.
\<close>

definition processStreamFrame :: "libs \<Rightarrow> frame \<Rightarrow> world \<Rightarrow> tensor result \<times> world" where
  "processStreamFrame L data w =
     (case data of
        Buffer buffer \<Rightarrow> processImageBuffer L buffer \<lparr>width = None, height = None\<rparr> w
      | Base64 s \<Rightarrow>
          processImageBuffer L
            (base64_decode L (case split_comma_1 s of Some d \<Rightarrow> d | None \<Rightarrow> s))
            \<lparr>width = None, height = None\<rparr> w
      | OtherInput \<Rightarrow>
          (Inl (Error (''Stream processing failed: ''
                       @ ''Invalid input: expected Buffer or base64 string'')), w))"

record quality_options =
  minSize :: "nat option"
  minWidth :: "nat option"
  minHeight :: "nat option"

text \<open>The \<open>try\<close> block of \<open>checkImageQuality\<close>.\<close>

definition qualityChecks :: "libs \<Rightarrow> string \<Rightarrow> nat \<Rightarrow> nat \<Rightarrow> nat \<Rightarrow> world \<Rightarrow> bool result" where
  "qualityChecks L imagePath minS minW minH w =
     (case files w imagePath of
        None \<Rightarrow> Inl (Error (fs_error L ''stat'' imagePath))
      | Some content \<Rightarrow>
          (if length content < minS then
             Inl (Error (''Image file too small ('' @ show_nat (length content)
                         @ '' bytes). Minimum size: '' @ show_nat minS @ '' bytes''))
           else
             (case sharp_metadata L content of
                Inl e \<Rightarrow> Inl e
              | Inr (mw, mh) \<Rightarrow>
                  (if mw < minW \<or> mh < minH then
                     Inl (Error (''Image dimensions too small ('' @ show_nat mw @ ''x''
                                 @ show_nat mh @ ''). Minimum: '' @ show_nat minW @ ''x''
                                 @ show_nat minH))
                   else Inr True))))"

definition checkImageQuality :: "libs \<Rightarrow> string \<Rightarrow> quality_options \<Rightarrow> world \<Rightarrow> bool result" where
  "checkImageQuality L imagePath options w =
     (case qualityChecks L imagePath
             (with_default (10 * 1024) (minSize options))
             (with_default 224 (minWidth options))
             (with_default 224 (minHeight options)) w of
        Inl e \<Rightarrow>
          (if str_includes (msg e) ''Image'' then Inl e
           else Inl (Error (''Image quality check failed: '' @ msg e)))
      | Inr ok \<Rightarrow> Inr ok)"

section \<open>The detection controller (controllers/detectionController.js)\<close>

text \<open>
  \<open>cleanupFiles\<close>: one \<open>fs.unlink\<close> per non-empty path; an unlink that fails is logged
  and changes nothing. The controller does not await \<open>cleanupFiles\<close>; here the unlinks
  take effect where they are issued.
\<close>

definition unlink :: "string \<Rightarrow> world \<Rightarrow> world" where
  "unlink p w = (record_call (Unlink p) w)\<lparr>files := (files w)(p := None)\<rparr>"

definition cleanupFiles :: "string list \<Rightarrow> world \<Rightarrow> world" where
  "cleanupFiles filePaths w = foldl (\<lambda>w' p. unlink p w') w (filter (\<lambda>p. p \<noteq> []) filePaths)"

text \<open>
  The payload of a successful response. \<open>analyzeStream\<close> names the two per-model fields
  \<open>yolov5Prediction\<close> and \<open>yolov7Prediction\<close> and sends no file name.
\<close>

record results =
  yolov5Analysis :: entry
  yolov7Analysis :: entry
  analysis :: entry
  processingTime :: int
  filename :: "string option"

text \<open>
  The response body of \<open>createResponse\<close> (the \<open>timestamp\<close>, and the stack trace added in
  development mode, are left out).
\<close>

record body =
  success :: bool
  data :: "results option"
  message :: "string option"
  error :: "string option"

type_synonym response = "nat \<times> body"

definition createResponse :: "bool \<Rightarrow> results option \<Rightarrow> string \<Rightarrow> js_error option \<Rightarrow> body" where
  "createResponse ok d m err =
     \<lparr>success = ok,
      data = (if ok then d else None),
      message = (if m \<noteq> [] then Some m else None),
      error = (if \<not> ok then map_option msg err else None)\<rparr>"

record upload =
  path :: string
  upload_filename :: string

record request =
  req_file :: "upload option"
  imageData :: "string option"

text \<open>
  What the request handler gets from outside: the outcome of the two \<open>getModel\<close> calls,
  which of them rejects first when both do, and the two readings of \<open>Date.now()\<close>.
\<close>

record services =
  getYOLOv5Model :: "graph_model result"
  getYOLOv7Model :: "graph_model result"
  yolov7_rejects_first :: bool
  startTime :: int
  endTime :: int

text \<open>\<open>Promise.all\<close> of two promises: both values, or the first rejection.\<close>

definition promise_all2 :: "bool \<Rightarrow> 'a result \<Rightarrow> 'b result \<Rightarrow> ('a \<times> 'b) result" where
  "promise_all2 second_first a b =
     (case a of
        Inl e1 \<Rightarrow> (case b of Inl e2 \<Rightarrow> Inl (if second_first then e2 else e1) | Inr y \<Rightarrow> Inl e1)
      | Inr x \<Rightarrow> (case b of Inl e2 \<Rightarrow> Inl e2 | Inr y \<Rightarrow> Inr (x, y)))"

definition obtainModels :: "services \<Rightarrow> world \<Rightarrow> (graph_model \<times> graph_model) result \<times> world" where
  "obtainModels S w =
     (promise_all2 (yolov7_rejects_first S) (getYOLOv5Model S) (getYOLOv7Model S),
      record_call (GetModel ''yolov7'') (record_call (GetModel ''yolov5'') w))"

text \<open>
  \<open>Promise.all([yolov5.predict(tensor), yolov7.predict(tensor)])\<close> followed by the two
  \<open>data()\<close> reads. \<open>predict\<close> of a \<open>tf.GraphModel\<close> is a plain call, and the array
  elements are evaluated from left to right: when the first call throws, the second is
  never made. Each successful forward pass leaves one more tensor.
\<close>

definition predictBoth ::
  "graph_model \<Rightarrow> graph_model \<Rightarrow> tensor \<Rightarrow> world \<Rightarrow> (jsnum list \<times> jsnum list) result \<times> world" where
  "predictBoth yolov5 yolov7 t w =
     (case predict yolov5 t of
        Inl e \<Rightarrow> (Inl e, record_call (Predict ''yolov5'' (Inl e)) w)
      | Inr yolov5Data \<Rightarrow>
          (let w1 = alloc 1 (record_call (Predict ''yolov5'' (Inr yolov5Data)) w) in
           case predict yolov7 t of
             Inl e \<Rightarrow> (Inl e, record_call (Predict ''yolov7'' (Inl e)) w1)
           | Inr yolov7Data \<Rightarrow>
               (Inr (yolov5Data, yolov7Data),
                alloc 1 (record_call (Predict ''yolov7'' (Inr yolov7Data)) w1))))"

text \<open>
  The \<open>results\<close> object built from the two output vectors: YOLOv5's entry first, then
  YOLOv7's; the first \<open>RangeError\<close> ends the construction.
\<close>

definition buildResults ::
  "nat \<Rightarrow> jsnum list \<Rightarrow> jsnum list \<Rightarrow> int \<Rightarrow> string option \<Rightarrow> results result" where
  "buildResults argLimit yolov5Data yolov7Data elapsed fname =
     (case modelEntry argLimit yolov5Data of
        Inl e \<Rightarrow> Inl e
      | Inr y5 \<Rightarrow>
          (case modelEntry argLimit yolov7Data of
             Inl e \<Rightarrow> Inl e
           | Inr y7 \<Rightarrow>
               Inr \<lparr>yolov5Analysis = y5, yolov7Analysis = y7, analysis = primaryAnalysis y5 y7,
                    processingTime = elapsed, filename = fname\<rparr>))"

text \<open>
  The part of the \<open>try\<close> block of \<open>analyzeImage\<close> after the quality check, up to the two
  output vectors: resize into the processed file, obtain both models, read and
  preprocess the processed file, run both models.
\<close>

definition detectUpload ::
  "libs \<Rightarrow> services \<Rightarrow> string \<Rightarrow> string \<Rightarrow> world \<Rightarrow> (jsnum list \<times> jsnum list) result \<times> world" where
  "detectUpload L S filePath processedFilePath w =
     (case files w filePath of
        None \<Rightarrow> (Inl (Error (fs_error L ''open'' filePath)), w)
      | Some content \<Rightarrow>
          (case sharp_resize L content
                  \<lparr>rwidth = 640, rheight = 640, rfit = Contain, background = (0, 0, 0)\<rparr> of
             Inl e \<Rightarrow> (Inl e, w)
           | Inr resized \<Rightarrow>
               (case obtainModels S (w\<lparr>files := (files w)(processedFilePath \<mapsto> resized)\<rparr>) of
                  (Inl e, w1) \<Rightarrow> (Inl e, w1)
                | (Inr (yolov5, yolov7), w1) \<Rightarrow>
                    (case files w1 processedFilePath of
                       None \<Rightarrow> (Inl (Error (fs_error L ''open'' processedFilePath)), w1)
                     | Some imageBuffer \<Rightarrow>
                         (case preprocessImage L processedFilePath w1 of
                            (Inl e, w2) \<Rightarrow> (Inl e, w2)
                          | (Inr t, w2) \<Rightarrow> predictBoth yolov5 yolov7 t w2)))))"

definition analyzeImage :: "libs \<Rightarrow> services \<Rightarrow> request \<Rightarrow> world \<Rightarrow> response \<times> world" where
  "analyzeImage L S req w =
     (case req_file req of
        None \<Rightarrow>
          ((400, createResponse False None ''No image file uploaded''
                   (Some (Error ''No image file uploaded''))), w)
      | Some f \<Rightarrow>
          (let filePath = path_resolve L (path f);
               processedFilePath = filePath @ ''_processed.jpg'';
               filesToCleanup = [filePath, processedFilePath]
           in case files w filePath of
                None \<Rightarrow>
                  ((404, createResponse False None (''Upload file not found: '' @ filePath)
                           (Some (Error (fs_error L ''access'' filePath)))), w)
              | Some content \<Rightarrow>
                  (case checkImageQuality L filePath
                          \<lparr>minSize = None, minWidth = None, minHeight = None\<rparr> w of
                     Inl e \<Rightarrow>
                       ((400, createResponse False None ''Image quality check failed'' (Some e)), w)
                   | Inr ok \<Rightarrow>
                       (case detectUpload L S filePath processedFilePath w of
                          (Inl e, w') \<Rightarrow>
                            ((500, createResponse False None ''Error processing image'' (Some e)),
                             cleanupFiles filesToCleanup w')
                        | (Inr (yolov5Data, yolov7Data), w') \<Rightarrow>
                            (case buildResults (spread_limit L) yolov5Data yolov7Data
                                    (endTime S - startTime S) (Some (upload_filename f)) of
                               Inl e \<Rightarrow>
                                 ((500, createResponse False None ''Error processing image''
                                          (Some e)),
                                  cleanupFiles filesToCleanup w')
                             | Inr res \<Rightarrow>
                                 ((200, createResponse True (Some res)
                                          ''Image analysis completed successfully'' None),
                                  cleanupFiles filesToCleanup w'))))))"

text \<open>
  The \<open>try\<close> block of \<open>analyzeStream\<close> up to the two output vectors.
  \<open>Buffer.from(undefined, "base64")\<close> throws a \<open>TypeError\<close>.
\<close>

definition detectStream ::
  "libs \<Rightarrow> services \<Rightarrow> string \<Rightarrow> world \<Rightarrow> (jsnum list \<times> jsnum list) result \<times> world" where
  "detectStream L S imgData w =
     (case obtainModels S w of
        (Inl e, w1) \<Rightarrow> (Inl e, w1)
      | (Inr (yolov5, yolov7), w1) \<Rightarrow>
          (case split_comma_1 imgData of
             None \<Rightarrow>
               (Inl (Error (''The first argument must be of type string or an instance of ''
                            @ ''Buffer, ArrayBuffer, or Array or an Array-like Object. ''
                            @ ''Received undefined'')), w1)
           | Some base64Data \<Rightarrow>
               (case processStreamFrame L (Buffer (base64_decode L base64Data)) w1 of
                  (Inl e, w2) \<Rightarrow> (Inl e, w2)
                | (Inr t, w2) \<Rightarrow> predictBoth yolov5 yolov7 t w2)))"

definition analyzeStream :: "libs \<Rightarrow> services \<Rightarrow> request \<Rightarrow> world \<Rightarrow> response \<times> world" where
  "analyzeStream L S req w =
     (if imageData req = None \<or> imageData req = Some [] then
        ((400, createResponse False None ''No image data provided''
                 (Some (Error ''No image data provided''))), w)
      else
        (case detectStream L S (with_default [] (imageData req)) w of
           (Inl e, w') \<Rightarrow>
             ((500, createResponse False None ''Error in stream processing'' (Some e)), w')
         | (Inr (yolov5Data, yolov7Data), w') \<Rightarrow>
             (case buildResults (spread_limit L) yolov5Data yolov7Data
                     (endTime S - startTime S) None of
                Inl e \<Rightarrow>
                  ((500, createResponse False None ''Error in stream processing'' (Some e)), w')
              | Inr res \<Rightarrow>
                  ((200, createResponse True (Some res)
                           ''Stream analysis completed successfully'' None), w'))))"

section \<open>Concrete surroundings for the examples\<close>

definition example_model :: graph_model where
  "example_model = GraphModel (\<lambda>t. Inr [Fin (1 / 10), Fin (9 / 10)])"

definition example_loader_env :: loader_env where
  "example_loader_env =
     \<lparr>path_join = (\<lambda>p. ''/app/utils/'' @ p), fs_access = (\<lambda>p. True),
      race = (\<lambda>u k. Loaded example_model)\<rparr>"

definition empty_registry :: registry where
  "empty_registry = \<lparr>modelCache = Map.empty, trace = []\<rparr>"

definition example_libs :: libs where
  "example_libs =
     \<lparr>sharp_metadata = (\<lambda>b. Inr (800, 600)),
      sharp_resize = (\<lambda>b opts. Inr [1, 2, 3]),
      decodeImage = (\<lambda>b c. Inr \<lparr>ishape = [2, 1, 3], ivals = [0, 51, 102, 153, 204, 255]\<rparr>),
      base64_decode = (\<lambda>s. []),
      path_resolve = (\<lambda>p. p),
      fs_error = (\<lambda>call p. ''ENOENT: no such file or directory, '' @ call @ '' '' @ p),
      spread_limit = 125000\<rparr>"

definition example_request :: request where
  "example_request =
     \<lparr>req_file = Some \<lparr>path = ''/uploads/plant-1.jpg'', upload_filename = ''plant-1.jpg''\<rparr>,
      imageData = Some ''data:image/jpeg;base64,AAAA''\<rparr>"

text \<open>A world holding the upload with the given number of bytes.\<close>

definition example_world :: "nat \<Rightarrow> world" where
  "example_world n =
     \<lparr>files = [''/uploads/plant-1.jpg'' \<mapsto> replicate n 0], numTensors = 0, calls = []\<rparr>"

text \<open>Both models report the confidence 0.42, for different classes.\<close>

definition tie_yolov5_output :: "jsnum list" where
  "tie_yolov5_output = [Fin (42 / 100), Fin (10 / 100)]"

definition tie_yolov7_output :: "jsnum list" where
  "tie_yolov7_output = [Fin (10 / 100), Fin (42 / 100)]"

definition tie_services :: services where
  "tie_services =
     \<lparr>getYOLOv5Model = Inr (GraphModel (\<lambda>t. Inr tie_yolov5_output)),
      getYOLOv7Model = Inr (GraphModel (\<lambda>t. Inr tie_yolov7_output)),
      yolov7_rejects_first = False, startTime = 1000, endTime = 1250\<rparr>"

text \<open>The payload of the response to the example upload with these two models.\<close>

definition tie_results :: results where
  "tie_results =
     \<lparr>yolov5Analysis = entryAt tie_yolov5_output 0,
      yolov7Analysis = entryAt tie_yolov7_output 1,
      analysis = (entryAt tie_yolov7_output 1)\<lparr>model := Some ''YOLOv7''\<rparr>,
      processingTime = 250, filename = Some ''plant-1.jpg''\<rparr>"

text \<open>YOLOv5 reports class 2 with confidence 0.60; the forward pass of YOLOv7 throws.\<close>

definition late_blight_output :: "jsnum list" where
  "late_blight_output = [Fin (10 / 100), Fin (20 / 100), Fin (60 / 100)]"

definition one_failing_services :: services where
  "one_failing_services =
     \<lparr>getYOLOv5Model = Inr (GraphModel (\<lambda>t. Inr late_blight_output)),
      getYOLOv7Model = Inr (GraphModel (\<lambda>t. Inl (Error ''yolov7 forward pass failed''))),
      yolov7_rejects_first = False, startTime = 1000, endTime = 1250\<rparr>"

text \<open>YOLOv5 reports class 1 with confidence 0.91, YOLOv7 class 1 with confidence 0.77.\<close>

definition agreeing_yolov5_output :: "jsnum list" where
  "agreeing_yolov5_output = [Fin (5 / 100), Fin (91 / 100)]"

definition agreeing_yolov7_output :: "jsnum list" where
  "agreeing_yolov7_output = [Fin (10 / 100), Fin (77 / 100)]"


text \<open>
  The outcome of a detection run as the handlers see it: its result, the calls it made
  and the number of tensors it left.
\<close>

definition run_shape :: "(jsnum list \<times> jsnum list) result \<Rightarrow> event list \<Rightarrow> nat \<Rightarrow> bool" where
  "run_shape r es k \<longleftrightarrow>
     (\<exists>e. r = Inl e \<and> es = [] \<and> k = 0)
   \<or> (\<exists>e. r = Inl e \<and> es = [GetModel ''yolov5'', GetModel ''yolov7''] \<and> k = 0)
   \<or> (\<exists>e. r = Inl e \<and> es = [GetModel ''yolov5'', GetModel ''yolov7'', Predict ''yolov5'' (Inl e)]
          \<and> k = 2)
   \<or> (\<exists>e d5. r = Inl e \<and> es = [GetModel ''yolov5'', GetModel ''yolov7'',
                                 Predict ''yolov5'' (Inr d5), Predict ''yolov7'' (Inl e)] \<and> k = 3)
   \<or> (\<exists>d5 d7. r = Inr (d5, d7) \<and> es = [GetModel ''yolov5'', GetModel ''yolov7'',
                                 Predict ''yolov5'' (Inr d5), Predict ''yolov7'' (Inr d7)] \<and> k = 4)"

text \<open>The response each handler builds from the result of its detection run.\<close>

definition image_response ::
  "libs \<Rightarrow> services \<Rightarrow> upload \<Rightarrow> (jsnum list \<times> jsnum list) result \<Rightarrow> response" where
  "image_response L S f r =
     (case r of
        Inl e \<Rightarrow> (500, createResponse False None ''Error processing image'' (Some e))
      | Inr (d5, d7) \<Rightarrow>
          (case buildResults (spread_limit L) d5 d7 (endTime S - startTime S)
                  (Some (upload_filename f)) of
             Inl e \<Rightarrow> (500, createResponse False None ''Error processing image'' (Some e))
           | Inr res \<Rightarrow>
               (200, createResponse True (Some res) ''Image analysis completed successfully'' None)))"

definition stream_response ::
  "libs \<Rightarrow> services \<Rightarrow> (jsnum list \<times> jsnum list) result \<Rightarrow> response" where
  "stream_response L S r =
     (case r of
        Inl e \<Rightarrow> (500, createResponse False None ''Error in stream processing'' (Some e))
      | Inr (d5, d7) \<Rightarrow>
          (case buildResults (spread_limit L) d5 d7 (endTime S - startTime S) None of
             Inl e \<Rightarrow> (500, createResponse False None ''Error in stream processing'' (Some e))
           | Inr res \<Rightarrow>
               (200, createResponse True (Some res)
                       ''Stream analysis completed successfully'' None)))"

text \<open>
  Further surroundings. An output vector longer than the argument limit of
  \<open>example_libs\<close>, and one that holds a NaN.
\<close>

definition long_output :: "jsnum list" where
  "long_output = replicate 130000 (Fin (1 / 2))"


definition nan_output :: "jsnum list" where
  "nan_output = [Fin (90 / 100), NaN]"

definition nan_output_services :: services where
  "nan_output_services =
     \<lparr>getYOLOv5Model = Inr (GraphModel (\<lambda>t. Inr nan_output)),
      getYOLOv7Model = Inr (GraphModel (\<lambda>t. Inr agreeing_yolov7_output)),
      yolov7_rejects_first = False, startTime = 1000, endTime = 1250\<rparr>"



text \<open>
  A loader for which the model's \<open>.json\<close> file is present while its weight files are
  not: \<open>fs.access\<close> succeeds and every \<open>tf.loadGraphModel\<close> rejects.
\<close>

definition weights_missing_env :: loader_env where
  "weights_missing_env =
     \<lparr>path_join = (\<lambda>p. ''/app/utils/'' @ p), fs_access = (\<lambda>p. True),
      race = (\<lambda>u k. LoadRejected (Error
        ''ENOENT: no such file or directory, open /app/models/yolov5/group1-shard1of1.bin''))\<rparr>"

text \<open>A loader for which the model's \<open>.json\<close> file is absent.\<close>

definition json_missing_env :: loader_env where
  "json_missing_env =
     \<lparr>path_join = (\<lambda>p. ''/app/utils/'' @ p), fs_access = (\<lambda>p. False),
      race = (\<lambda>u k. Loaded example_model)\<rparr>"

section \<open>Verified properties\<close>

subsection \<open>Class index to label\<close>

lemma labelMap_in_range:
  "0 \<le> i \<Longrightarrow> i < 9 \<Longrightarrow>
   labelMap i = Some ([''Early Blight'', ''Healthy'', ''Late Blight'', ''Leaf Miner'', ''Leaf Mold'',
      ''Mosaic Virus'', ''Septoria'', ''Spider Mites'', ''Yellow Leaf Curl Virus''] ! nat i)"
proof -
  assume "0 \<le> i" "i < 9"
  then have "i = 0 \<or> i = 1 \<or> i = 2 \<or> i = 3 \<or> i = 4 \<or> i = 5 \<or> i = 6 \<or> i = 7 \<or> i = 8"
    by arith
  then show ?thesis
    by (elim disjE) (simp_all add: labelMap_def)
qed

lemma labelMap_out_of_range: "i < 0 \<or> 9 \<le> i \<Longrightarrow> labelMap i = None"
  by (auto simp: labelMap_def)

lemma diseaseName_in_range:
  assumes "0 \<le> i" "i < 9"
  shows "diseaseName i =
           [''Early Blight'', ''Healthy'', ''Late Blight'', ''Leaf Miner'', ''Leaf Mold'',
            ''Mosaic Virus'', ''Septoria'', ''Spider Mites'', ''Yellow Leaf Curl Virus''] ! nat i"
    and "diseaseName i \<noteq> ''Unknown''"
proof -
  from assms have r: "i = 0 \<or> i = 1 \<or> i = 2 \<or> i = 3 \<or> i = 4 \<or> i = 5 \<or> i = 6 \<or> i = 7 \<or> i = 8"
    by arith
  from r show "diseaseName i =
           [''Early Blight'', ''Healthy'', ''Late Blight'', ''Leaf Miner'', ''Leaf Mold'',
            ''Mosaic Virus'', ''Septoria'', ''Spider Mites'', ''Yellow Leaf Curl Virus''] ! nat i"
    by (elim disjE) (simp_all add: diseaseName_def labelMap_def)
  from r show "diseaseName i \<noteq> ''Unknown''"
    by (elim disjE) (simp_all add: diseaseName_def labelMap_def)
qed

lemma diseaseName_out_of_range: "i < 0 \<or> 9 \<le> i \<Longrightarrow> diseaseName i = ''Unknown''"
  by (simp add: diseaseName_def labelMap_out_of_range)

text \<open>
  C8. The index-to-label mapping is total: an index inside the fixed 9-entry table
  (0 to 8) yields that table's disease label, which is never "Unknown"; any index outside
  the table (including the -1 of an unsuccessful \<open>indexOf\<close>) yields "Unknown". The label
  of a per-model entry is this mapping applied to the class index of the model's output
  (and where no class index comes about, because \<open>Math.max\<close> throws, the same error
  ends the entry).
\<close>

theorem label_lookup_total:
  "(0 \<le> i \<and> i < 9 \<longrightarrow>
      diseaseName i =
        [''Early Blight'', ''Healthy'', ''Late Blight'', ''Leaf Miner'', ''Leaf Mold'',
         ''Mosaic Virus'', ''Septoria'', ''Spider Mites'', ''Yellow Leaf Curl Virus''] ! nat i
      \<and> diseaseName i \<noteq> ''Unknown'')
   \<and> (i < 0 \<or> 9 \<le> i \<longrightarrow> diseaseName i = ''Unknown'')
   \<and> map_sum id disease (modelEntry argLimit xs) = map_sum id diseaseName (classIndex argLimit xs)"
proof -
  have inside: "0 \<le> i \<and> i < 9 \<longrightarrow>
      diseaseName i =
        [''Early Blight'', ''Healthy'', ''Late Blight'', ''Leaf Miner'', ''Leaf Mold'',
         ''Mosaic Virus'', ''Septoria'', ''Spider Mites'', ''Yellow Leaf Curl Virus''] ! nat i
      \<and> diseaseName i \<noteq> ''Unknown''"
    using diseaseName_in_range [of i] by blast
  have outside: "i < 0 \<or> 9 \<le> i \<longrightarrow> diseaseName i = ''Unknown''"
    using diseaseName_out_of_range [of i] by blast
  have used: "map_sum id disease (modelEntry argLimit xs)
                = map_sum id diseaseName (classIndex argLimit xs)"
    by (cases "classIndex argLimit xs") (simp_all add: modelEntry_def entryAt_def Let_def)
  from inside outside used show ?thesis by blast
qed

theorem label_lookup_total_witness:
  "diseaseName 2 = ''Late Blight'' \<and> diseaseName 9 = ''Unknown'' \<and> diseaseName (-1) = ''Unknown''
   \<and> map_sum id disease (modelEntry 125000 [Fin 0.1, Fin 0.2, Fin 0.7]) = Inr ''Late Blight''
   \<and> map_sum id disease (modelEntry 125000 []) = Inr ''Unknown''"
  using label_lookup_total [of 2 125000 "[Fin 0.1, Fin 0.2, Fin 0.7]"]
    label_lookup_total [of 9 125000 "[]"] label_lookup_total [of "-1" 125000 "[]"]
  by (simp add: classIndex_def indexOf_def math_max_def max_of_def js_max2_def js_seq_def)

subsection \<open>Bounded retries\<close>

lemma attempt_error_failed:
  "(\<forall>m. r \<noteq> Loaded m) \<Longrightarrow>
   attempt_error cfg r = Some (Error (case r of LoadRejected e \<Rightarrow> msg e
      | TimerFirst \<Rightarrow> ''Model loading timed out after '' @ show_nat (timeout cfg) @ ''ms''
      | Loaded m \<Rightarrow> []))"
  by (cases r) (simp_all add: attempt_error_def)

lemma retry_loop_past_end:
  "retryAttempts cfg < a \<Longrightarrow>
   retry_loop cfg env n u a (Some e) reg =
     (Inl (Error (''Failed to load '' @ toUpperCase n @ '' model after ''
                  @ show_nat (retryAttempts cfg) @ '' attempts: '' @ msg e)), reg)"
  by (subst retry_loop.simps) simp

lemma retry_loop_failed_step:
  assumes "a \<le> retryAttempts cfg" and "\<forall>m. race env u a \<noteq> Loaded m"
  shows "retry_loop cfg env n u a le reg =
           retry_loop cfg env n u (Suc a) (attempt_error cfg (race env u a))
             (emit (LoadAttempt u a # (if a < retryAttempts cfg then [RetryWait (retryDelay cfg)] else [])) reg)"
  using assms
  by (subst retry_loop.simps) (cases "race env u a"; simp add: emit_def Let_def)

lemma retry_loop_loaded_step:
  assumes "a \<le> retryAttempts cfg" and "race env u a = Loaded m"
  shows "retry_loop cfg env n u a le reg =
           (Inr m, \<lparr>modelCache = (modelCache reg)(n \<mapsto> m),
                    trace = trace reg @ [LoadAttempt u a, Warmup n (warmupModel cfg m), CacheSet n]\<rparr>)"
  using assms
  by (subst retry_loop.simps) (simp add: emit_def Let_def)

lemma emit_emit: "emit es (emit ds reg) = emit (ds @ es) reg"
  by (simp add: emit_def)

lemma retry_loop_all_fail:
  assumes "\<forall>k. a \<le> k \<and> k \<le> retryAttempts cfg \<longrightarrow> (\<forall>m. race env u k \<noteq> Loaded m)"
    and "a \<le> retryAttempts cfg"
  shows "retry_loop cfg env n u a le reg =
           (Inl (Error (''Failed to load '' @ toUpperCase n @ '' model after ''
                        @ show_nat (retryAttempts cfg) @ '' attempts: ''
                        @ (case race env u (retryAttempts cfg) of LoadRejected e \<Rightarrow> msg e
                           | TimerFirst \<Rightarrow> ''Model loading timed out after '' @ show_nat (timeout cfg) @ ''ms''
                           | Loaded m \<Rightarrow> []))),
            emit (concat (map (\<lambda>k. [LoadAttempt u k, RetryWait (retryDelay cfg)]) [a..<retryAttempts cfg])
                  @ [LoadAttempt u (retryAttempts cfg)]) reg)"
  using assms
proof (induction "retryAttempts cfg - a" arbitrary: a le reg)
  case 0
  then have a: "a = retryAttempts cfg" by simp
  have f: "\<forall>m. race env u a \<noteq> Loaded m" using "0.prems" by simp
  show ?case
    using retry_loop_failed_step [OF "0.prems"(2) f, of n le reg]
    by (simp add: a attempt_error_failed [OF f [unfolded a]] retry_loop_past_end)
next
  case (Suc d)
  then have lt: "a < retryAttempts cfg" by simp
  have f: "\<forall>m. race env u a \<noteq> Loaded m" using Suc.prems by simp
  have ih: "retry_loop cfg env n u (Suc a) le' reg' =
           (Inl (Error (''Failed to load '' @ toUpperCase n @ '' model after ''
                        @ show_nat (retryAttempts cfg) @ '' attempts: ''
                        @ (case race env u (retryAttempts cfg) of LoadRejected e \<Rightarrow> msg e
                           | TimerFirst \<Rightarrow> ''Model loading timed out after '' @ show_nat (timeout cfg) @ ''ms''
                           | Loaded m \<Rightarrow> []))),
            emit (concat (map (\<lambda>k. [LoadAttempt u k, RetryWait (retryDelay cfg)]) [Suc a..<retryAttempts cfg])
                  @ [LoadAttempt u (retryAttempts cfg)]) reg')" for le' reg'
    using Suc.hyps(2) Suc.prems lt by (intro Suc.hyps(1)) auto
  show ?case
    using retry_loop_failed_step [OF Suc.prems(2) f, of n le reg] lt
    by (simp add: ih emit_emit upt_conv_Cons)
qed

lemma retry_loop_first_success:
  assumes "a \<le> k" and "k \<le> retryAttempts cfg" and "race env u k = Loaded m"
    and "\<forall>j. a \<le> j \<and> j < k \<longrightarrow> (\<forall>m'. race env u j \<noteq> Loaded m')"
  shows "retry_loop cfg env n u a le reg =
           (Inr m, \<lparr>modelCache = (modelCache reg)(n \<mapsto> m),
                    trace = trace reg
                      @ concat (map (\<lambda>j. [LoadAttempt u j, RetryWait (retryDelay cfg)]) [a..<k])
                      @ [LoadAttempt u k, Warmup n (warmupModel cfg m), CacheSet n]\<rparr>)"
  using assms
proof (induction "k - a" arbitrary: a le reg)
  case 0
  then have "a = k" by simp
  then show ?case
    using "0.prems"(2,3) by (simp add: retry_loop_loaded_step fun_upd_def)
next
  case (Suc d)
  then have lt: "a < k" by simp
  have f: "\<forall>m'. race env u a \<noteq> Loaded m'" using Suc.prems lt by simp
  have le_n: "a \<le> retryAttempts cfg" using lt Suc.prems by simp
  have ih: "retry_loop cfg env n u (Suc a) le' reg' =
           (Inr m, \<lparr>modelCache = (modelCache reg')(n \<mapsto> m),
                    trace = trace reg'
                      @ concat (map (\<lambda>j. [LoadAttempt u j, RetryWait (retryDelay cfg)]) [Suc a..<k])
                      @ [LoadAttempt u k, Warmup n (warmupModel cfg m), CacheSet n]\<rparr>)" for le' reg'
    using Suc.hyps(2) Suc.prems lt by (intro Suc.hyps(1)) auto
  show ?case
    using retry_loop_failed_step [OF le_n f, of n le reg] lt Suc.prems(2)
    by (simp add: ih emit_def upt_conv_Cons)
qed

lemma retry_loop_loadCount:
  "loadCount (snd (retry_loop cfg env n u a le reg)) \<le> loadCount reg + (Suc (retryAttempts cfg) - a)"
proof (induction cfg env n u a le reg rule: retry_loop.induct)
  case (1 cfg env modelName modelUrl attempt lastError reg)
  show ?case
  proof (cases "attempt \<le> retryAttempts cfg")
    case False
    then show ?thesis
      by (subst retry_loop.simps) (simp split: option.splits)
  next
    case True
    note in_range = True
    show ?thesis
    proof (cases "\<exists>m. race env modelUrl attempt = Loaded m")
      case True
      then obtain m where "race env modelUrl attempt = Loaded m" by blast
      then show ?thesis
        using in_range by (simp add: retry_loop_loaded_step loadCount_def)
    next
      case False
      then have f: "\<forall>m. race env modelUrl attempt \<noteq> Loaded m" by simp
      have cases_r: "race env modelUrl attempt = TimerFirst \<or> (\<exists>e. race env modelUrl attempt = LoadRejected e)"
        using f by (cases "race env modelUrl attempt") auto
      have step: "loadCount (snd (retry_loop cfg env modelName modelUrl (attempt + 1)
              (attempt_error cfg (race env modelUrl attempt))
              (if attempt < retryAttempts cfg
               then emit [RetryWait (retryDelay cfg)] (emit [LoadAttempt modelUrl attempt] reg)
               else emit [LoadAttempt modelUrl attempt] reg)))
          \<le> loadCount (if attempt < retryAttempts cfg
               then emit [RetryWait (retryDelay cfg)] (emit [LoadAttempt modelUrl attempt] reg)
               else emit [LoadAttempt modelUrl attempt] reg) + (Suc (retryAttempts cfg) - (attempt + 1))"
        using cases_r "1.IH"(1) "1.IH"(2) in_range by (elim disjE exE) simp_all
      show ?thesis
        using retry_loop_failed_step [OF in_range f, of modelName lastError reg] step in_range
        by (auto simp: emit_def loadCount_def split: if_splits)
    qed
  qed
qed


text \<open>
  C7. For a configured model whose file exists (with at least one attempt configured),
  \<open>loadModelWithRetry\<close> calls \<open>tf.loadGraphModel\<close> at most \<open>retryAttempts\<close> times.
  An attempt fails when the load rejects or when the timeout timer settles the race first.
  When every attempt fails, the attempts made are exactly 1 to \<open>retryAttempts\<close>, with one
  wait of \<open>retryDelay\<close> between consecutive attempts and none after the last, the cache
  is unchanged, and the single error thrown names the model (upper-cased), the number of
  attempts and the message of the last attempt's error (the timeout message when the timer
  won). When attempt \<open>k\<close> is the first to load, the earlier attempts are each followed by
  one wait, and the model is warmed up, cached and returned.
\<close>

theorem load_retry_policy:
  assumes "C modelName = Some cfg"
    and "fs_access env (path_join env (modelPath cfg))"
    and "0 < retryAttempts cfg"
  shows "loadCount (snd (loadModelWithRetry C env modelName reg)) \<le> loadCount reg + retryAttempts cfg
    \<and> ((\<forall>k. 1 \<le> k \<and> k \<le> retryAttempts cfg \<longrightarrow>
           (\<forall>m. race env (''file://'' @ path_join env (modelPath cfg)) k \<noteq> Loaded m)) \<longrightarrow>
         loadModelWithRetry C env modelName reg =
           (Inl (Error (''Failed to load '' @ toUpperCase modelName @ '' model after ''
                        @ show_nat (retryAttempts cfg) @ '' attempts: ''
                        @ (case race env (''file://'' @ path_join env (modelPath cfg)) (retryAttempts cfg) of
                             LoadRejected e \<Rightarrow> msg e
                           | TimerFirst \<Rightarrow> ''Model loading timed out after '' @ show_nat (timeout cfg) @ ''ms''
                           | Loaded m \<Rightarrow> []))),
            reg\<lparr>trace := trace reg
                   @ concat (map (\<lambda>k. [LoadAttempt (''file://'' @ path_join env (modelPath cfg)) k,
                                        RetryWait (retryDelay cfg)]) [1..<retryAttempts cfg])
                   @ [LoadAttempt (''file://'' @ path_join env (modelPath cfg)) (retryAttempts cfg)]\<rparr>))
    \<and> (\<forall>k m. 1 \<le> k \<and> k \<le> retryAttempts cfg
           \<and> race env (''file://'' @ path_join env (modelPath cfg)) k = Loaded m
           \<and> (\<forall>j. 1 \<le> j \<and> j < k \<longrightarrow>
                 (\<forall>m'. race env (''file://'' @ path_join env (modelPath cfg)) j \<noteq> Loaded m')) \<longrightarrow>
         loadModelWithRetry C env modelName reg =
           (Inr m,
            \<lparr>modelCache = (modelCache reg)(modelName \<mapsto> m),
             trace = trace reg
                   @ concat (map (\<lambda>j. [LoadAttempt (''file://'' @ path_join env (modelPath cfg)) j,
                                        RetryWait (retryDelay cfg)]) [1..<k])
                   @ [LoadAttempt (''file://'' @ path_join env (modelPath cfg)) k,
                      Warmup modelName (warmupModel cfg m), CacheSet modelName]\<rparr>))"
proof -
  let ?u = "''file://'' @ path_join env (modelPath cfg)"
  have unfold: "loadModelWithRetry C env modelName reg = retry_loop cfg env modelName ?u 1 None reg"
    using assms(1,2) by (simp add: loadModelWithRetry_def checkModelFiles_def)
  have bound: "loadCount (snd (loadModelWithRetry C env modelName reg)) \<le> loadCount reg + retryAttempts cfg"
    using retry_loop_loadCount [of cfg env modelName ?u 1 None reg] by (simp add: unfold)
  have one: "Suc 0 \<le> retryAttempts cfg" using assms(3) by simp
  have fail: "(\<forall>k. 1 \<le> k \<and> k \<le> retryAttempts cfg \<longrightarrow> (\<forall>m. race env ?u k \<noteq> Loaded m)) \<Longrightarrow>
         retry_loop cfg env modelName ?u 1 None reg =
           (Inl (Error (''Failed to load '' @ toUpperCase modelName @ '' model after ''
                        @ show_nat (retryAttempts cfg) @ '' attempts: ''
                        @ (case race env ?u (retryAttempts cfg) of
                             LoadRejected e \<Rightarrow> msg e
                           | TimerFirst \<Rightarrow> ''Model loading timed out after '' @ show_nat (timeout cfg) @ ''ms''
                           | Loaded m \<Rightarrow> []))),
            reg\<lparr>trace := trace reg
                   @ concat (map (\<lambda>k. [LoadAttempt ?u k, RetryWait (retryDelay cfg)]) [1..<retryAttempts cfg])
                   @ [LoadAttempt ?u (retryAttempts cfg)]\<rparr>)"
    using retry_loop_all_fail [of 1 cfg env ?u modelName None reg] one
    by (simp add: emit_def)
  have ok: "1 \<le> k \<and> k \<le> retryAttempts cfg \<and> race env ?u k = Loaded m
           \<and> (\<forall>j. 1 \<le> j \<and> j < k \<longrightarrow> (\<forall>m'. race env ?u j \<noteq> Loaded m')) \<Longrightarrow>
         retry_loop cfg env modelName ?u 1 None reg =
           (Inr m,
            \<lparr>modelCache = (modelCache reg)(modelName \<mapsto> m),
             trace = trace reg
                   @ concat (map (\<lambda>j. [LoadAttempt ?u j, RetryWait (retryDelay cfg)]) [1..<k])
                   @ [LoadAttempt ?u k, Warmup modelName (warmupModel cfg m), CacheSet modelName]\<rparr>)" for k m
    using retry_loop_first_success [of 1 k cfg env ?u m modelName None reg] by simp
  show ?thesis
    unfolding unfold [symmetric] using bound fail ok unfolding unfold by blast
qed

theorem load_retry_policy_witness:
  "MODEL_CONFIG ''yolov5'' = Some \<lparr>modelPath = ''../models/yolov5/yolov5_model.json'',
       warmupShape = [1, 640, 640, 3], timeout = 60000, retryAttempts = 3, retryDelay = 5000\<rparr>
   \<and> loadModelWithRetry MODEL_CONFIG
        \<lparr>path_join = (\<lambda>p. ''/app/utils/'' @ p), fs_access = (\<lambda>p. True),
         race = (\<lambda>u k. if k = 3 then TimerFirst else LoadRejected (Error ''bad weights''))\<rparr>
        ''yolov5'' \<lparr>modelCache = Map.empty, trace = []\<rparr>
      = (Inl (Error ''Failed to load YOLOV5 model after 3 attempts: Model loading timed out after 60000ms''),
         \<lparr>modelCache = Map.empty,
          trace = [LoadAttempt ''file:///app/utils/../models/yolov5/yolov5_model.json'' 1, RetryWait 5000,
                   LoadAttempt ''file:///app/utils/../models/yolov5/yolov5_model.json'' 2, RetryWait 5000,
                   LoadAttempt ''file:///app/utils/../models/yolov5/yolov5_model.json'' 3]\<rparr>)"
proof -
  let ?cfg = "\<lparr>modelPath = ''../models/yolov5/yolov5_model.json'',
        warmupShape = [1, 640, 640, 3], timeout = 60000, retryAttempts = 3, retryDelay = 5000\<rparr>"
  let ?env = "\<lparr>path_join = (\<lambda>p. ''/app/utils/'' @ p), fs_access = (\<lambda>p. True),
        race = (\<lambda>u k. if k = 3 then TimerFirst else LoadRejected (Error ''bad weights''))\<rparr>"
  let ?reg = "\<lparr>modelCache = Map.empty, trace = []\<rparr>"
  have h1: "MODEL_CONFIG ''yolov5'' = Some ?cfg" by (simp add: MODEL_CONFIG_def)
  have h2: "fs_access ?env (path_join ?env (modelPath ?cfg))" by simp
  have h3: "0 < retryAttempts ?cfg" by simp
  have allfail: "\<forall>k. 1 \<le> k \<and> k \<le> retryAttempts ?cfg \<longrightarrow>
      (\<forall>m. race ?env (''file://'' @ path_join ?env (modelPath ?cfg)) k \<noteq> Loaded m)"
    by simp
  have u: "[Suc 0..<3] = [Suc 0, 2]" by (simp add: upt_conv_Cons)
  have up: "toUpperCase ''yolov5'' = ''YOLOV5''" by (simp add: toUpperCase_def upper_char_def)
  have n3: "show_nat 3 = ''3''" by (simp add: show_nat.simps digit_char_def)
  have n6: "show_nat 60000 = ''60000''" by (simp add: show_nat.simps digit_char_def)
  from load_retry_policy [where C = MODEL_CONFIG and modelName = "''yolov5''" and cfg = ?cfg
      and env = ?env and reg = ?reg] h1 h2 h3 allfail
  have "loadModelWithRetry MODEL_CONFIG ?env ''yolov5'' ?reg =
           (Inl (Error (''Failed to load '' @ toUpperCase ''yolov5'' @ '' model after ''
                        @ show_nat (retryAttempts ?cfg) @ '' attempts: ''
                        @ (case race ?env (''file://'' @ path_join ?env (modelPath ?cfg)) (retryAttempts ?cfg) of
                             LoadRejected e \<Rightarrow> msg e
                           | TimerFirst \<Rightarrow> ''Model loading timed out after '' @ show_nat (timeout ?cfg) @ ''ms''
                           | Loaded m \<Rightarrow> []))),
            ?reg\<lparr>trace := trace ?reg
                   @ concat (map (\<lambda>k. [LoadAttempt (''file://'' @ path_join ?env (modelPath ?cfg)) k,
                                        RetryWait (retryDelay ?cfg)]) [1..<retryAttempts ?cfg])
                   @ [LoadAttempt (''file://'' @ path_join ?env (modelPath ?cfg)) (retryAttempts ?cfg)]\<rparr>)"
    by blast
  then show ?thesis
    using h1 by (simp add: u up n3 n6)
qed


subsection \<open>Model files missing\<close>

text \<open>
  C6, as the code has it. The only file \<open>checkModelFiles\<close> looks for is the model's
  \<open>.json\<close> file (\<open>modelPath\<close>). When that file is missing for a configured model,
  \<open>loadModelWithRetry\<close> fails at once with the "model file not found" error and leaves
  the registry untouched: no load attempt is made and no retry wait occurs. So does
  \<open>getModel\<close>, unless the model is already cached: a cached model is returned without a
  look at the files, again without any load attempt or wait.
\<close>

theorem missing_json_file_fails_fast:
  assumes "C modelName = Some cfg"
    and "\<not> fs_access env (path_join env (modelPath cfg))"
  shows "loadModelWithRetry C env modelName reg =
           (Inl (Error (toUpperCase modelName @ '' model file not found. See console for details.'')), reg)
       \<and> getModel C env modelName reg =
           ((case modelCache reg modelName of
               None \<Rightarrow> Inl (Error (toUpperCase modelName
                                    @ '' model file not found. See console for details.''))
             | Some m \<Rightarrow> Inr m), reg)
       \<and> loadCount (snd (getModel C env modelName reg)) = loadCount reg
       \<and> waitCount (snd (getModel C env modelName reg)) = waitCount reg"
  using assms
  by (simp add: loadModelWithRetry_def checkModelFiles_def getModel_def getModel_lookup_def
      split: option.splits)

lemma yolov5_config:
  "MODEL_CONFIG ''yolov5'' = Some \<lparr>modelPath = ''../models/yolov5/yolov5_model.json'',
       warmupShape = [1, 640, 640, 3], timeout = 60000, retryAttempts = 3, retryDelay = 5000\<rparr>"
  by (simp add: MODEL_CONFIG_def)

lemma upper_yolov5: "toUpperCase ''yolov5'' = ''YOLOV5''"
  by (simp add: toUpperCase_def upper_char_def)

theorem missing_json_file_fails_fast_witness:
  "MODEL_CONFIG ''yolov5'' = Some \<lparr>modelPath = ''../models/yolov5/yolov5_model.json'',
       warmupShape = [1, 640, 640, 3], timeout = 60000, retryAttempts = 3, retryDelay = 5000\<rparr>
   \<and> \<not> fs_access json_missing_env
          (path_join json_missing_env ''../models/yolov5/yolov5_model.json'')
   \<and> getModel MODEL_CONFIG json_missing_env ''yolov5'' empty_registry
      = (Inl (Error ''YOLOV5 model file not found. See console for details.''), empty_registry)
   \<and> loadCount (snd (getModel MODEL_CONFIG json_missing_env ''yolov5'' empty_registry)) = 0
   \<and> waitCount (snd (getModel MODEL_CONFIG json_missing_env ''yolov5'' empty_registry)) = 0"
proof -
  let ?cfg = "\<lparr>modelPath = ''../models/yolov5/yolov5_model.json'',
       warmupShape = [1, 640, 640, 3], timeout = 60000, retryAttempts = 3, retryDelay = 5000\<rparr>"
  have a: "\<not> fs_access json_missing_env (path_join json_missing_env (modelPath ?cfg))"
    by (simp add: json_missing_env_def)
  have c: "modelCache empty_registry ''yolov5'' = None" by (simp add: empty_registry_def)
  from missing_json_file_fails_fast [where C = MODEL_CONFIG and modelName = "''yolov5''"
      and cfg = ?cfg and env = json_missing_env and reg = empty_registry] yolov5_config a
  have "getModel MODEL_CONFIG json_missing_env ''yolov5'' empty_registry =
           ((case modelCache empty_registry ''yolov5'' of
               None \<Rightarrow> Inl (Error (toUpperCase ''yolov5''
                                    @ '' model file not found. See console for details.''))
             | Some m \<Rightarrow> Inr m), empty_registry)"
    by blast
  then have "getModel MODEL_CONFIG json_missing_env ''yolov5'' empty_registry
      = (Inl (Error ''YOLOV5 model file not found. See console for details.''), empty_registry)"
    by (simp add: c upper_yolov5)
  then show ?thesis
    using yolov5_config a by (simp add: empty_registry_def loadCount_def waitCount_def)
qed

text \<open>
  C6 as stated fails: with the \<open>.json\<close> file present and the weight files missing, the
  check passes and \<open>getModel\<close> makes three load attempts with two waits between them
  before it fails.
\<close>

theorem missing_weights_counterexample:
  "fs_access weights_missing_env (path_join weights_missing_env ''../models/yolov5/yolov5_model.json'')
   \<and> fst (getModel MODEL_CONFIG weights_missing_env ''yolov5'' empty_registry)
      = Inl (Error (''Failed to load YOLOV5 model after 3 attempts: ''
                    @ ''ENOENT: no such file or directory, open ''
                    @ ''/app/models/yolov5/group1-shard1of1.bin''))
   \<and> loadCount (snd (getModel MODEL_CONFIG weights_missing_env ''yolov5'' empty_registry)) = 3
   \<and> waitCount (snd (getModel MODEL_CONFIG weights_missing_env ''yolov5'' empty_registry)) = 2"
proof -
  let ?cfg = "\<lparr>modelPath = ''../models/yolov5/yolov5_model.json'',
       warmupShape = [1, 640, 640, 3], timeout = 60000, retryAttempts = 3, retryDelay = 5000\<rparr>"
  let ?u = "''file:///app/utils/../models/yolov5/yolov5_model.json''"
  have acc: "fs_access weights_missing_env
               (path_join weights_missing_env ''../models/yolov5/yolov5_model.json'')"
    by (simp add: weights_missing_env_def)
  have fail: "\<forall>k. 1 \<le> k \<and> k \<le> retryAttempts ?cfg \<longrightarrow>
               (\<forall>m. race weights_missing_env ?u k \<noteq> Loaded m)"
    by (simp add: weights_missing_env_def)
  have u: "[Suc 0..<3] = [Suc 0, 2]" by (simp add: upt_conv_Cons)
  have n3: "show_nat 3 = ''3''" by (simp add: show_nat.simps digit_char_def)
  have start: "getModel MODEL_CONFIG weights_missing_env ''yolov5'' empty_registry
               = retry_loop ?cfg weights_missing_env ''yolov5'' ?u 1 None empty_registry"
    by (simp add: getModel_def getModel_lookup_def yolov5_config empty_registry_def
        loadModelWithRetry_def checkModelFiles_def weights_missing_env_def)
  have "retry_loop ?cfg weights_missing_env ''yolov5'' ?u 1 None empty_registry
        = (Inl (Error (''Failed to load YOLOV5 model after 3 attempts: ''
                    @ ''ENOENT: no such file or directory, open ''
                    @ ''/app/models/yolov5/group1-shard1of1.bin'')),
           \<lparr>modelCache = Map.empty,
            trace = [LoadAttempt ?u 1, RetryWait 5000, LoadAttempt ?u 2, RetryWait 5000,
                     LoadAttempt ?u 3]\<rparr>)"
    using retry_loop_all_fail [where a = 1 and cfg = ?cfg and env = weights_missing_env
        and u = ?u and n = "''yolov5''" and le = None and reg = empty_registry] fail
    by (simp add: u n3 upper_yolov5 emit_def empty_registry_def weights_missing_env_def)
  with start acc show ?thesis
    by (simp add: loadCount_def waitCount_def)
qed

subsection \<open>Overlapping callers of \<open>getModel\<close>\<close>

lemma replicate_update_next:
  "n < m \<Longrightarrow> (replicate n a @ replicate (m - n) b)[n := a] = replicate (Suc n) a @ replicate (m - Suc n) b"
proof -
  assume "n < m"
  then obtain d where d: "m - n = Suc d" by (metis Suc_diff_Suc)
  then have "m - Suc n = d" by simp
  then show ?thesis
    by (simp add: d list_update_append replicate_append_same)
qed

lemma replicate_nth_next: "n < m \<Longrightarrow> (replicate n a @ replicate (m - n) b) ! n = b"
  by (simp add: nth_append)

lemma first_attempt_loads:
  assumes "C modelName = Some cfg"
    and "fs_access env (path_join env (modelPath cfg))"
    and "0 < retryAttempts cfg"
    and "race env (''file://'' @ path_join env (modelPath cfg)) 1 = Loaded m"
  shows "loadModelWithRetry C env modelName reg =
           (Inr m, \<lparr>modelCache = (modelCache reg)(modelName \<mapsto> m),
                    trace = trace reg @ [LoadAttempt (''file://'' @ path_join env (modelPath cfg)) 1,
                                         Warmup modelName (warmupModel cfg m), CacheSet modelName]\<rparr>)"
proof -
  have "Suc 0 \<le> retryAttempts cfg" using assms(3) by simp
  then show ?thesis
    using assms(1,2,4)
    by (simp add: loadModelWithRetry_def checkModelFiles_def retry_loop_loaded_step)
qed

lemma calls_all_cached:
  assumes "C modelName = Some cfg" and "modelCache reg modelName = Some m"
  shows "n \<le> k \<Longrightarrow>
         foldl (sched_step C env modelName) (reg, Returned (Inr m) # replicate k NotCalled)
           (map Call [1..<Suc n])
         = (reg, Returned (Inr m) # replicate n (Returned (Inr m)) @ replicate (k - n) NotCalled)"
proof (induction n)
  case 0
  then show ?case by simp
next
  case (Suc n)
  then have lt: "n < k" by simp
  show ?case
    using Suc.IH lt assms
    by (simp add: replicate_nth_next replicate_update_next getModel_lookup_def del: replicate_Suc)
qed

lemma sequential_callers_run:
  assumes "C modelName = Some cfg"
    and "modelCache reg modelName = None"
    and "fs_access env (path_join env (modelPath cfg))"
    and "0 < retryAttempts cfg"
    and "race env (''file://'' @ path_join env (modelPath cfg)) 1 = Loaded m"
  shows "loadCount (fst (run_schedule C env modelName (Call 0 # Finish 0 # map Call [1..<Suc n])
                          (reg, replicate (Suc n) NotCalled))) = loadCount reg + 1
       \<and> snd (run_schedule C env modelName (Call 0 # Finish 0 # map Call [1..<Suc n])
                (reg, replicate (Suc n) NotCalled)) = replicate (Suc n) (Returned (Inr m))"
proof -
  let ?reg' = "\<lparr>modelCache = (modelCache reg)(modelName \<mapsto> m),
                trace = trace reg @ [LoadAttempt (''file://'' @ path_join env (modelPath cfg)) 1,
                                     Warmup modelName (warmupModel cfg m), CacheSet modelName]\<rparr>"
  have c: "modelCache ?reg' modelName = Some m" by simp
  have two: "foldl (sched_step C env modelName) (reg, replicate (Suc n) NotCalled) [Call 0, Finish 0]
               = (?reg', Returned (Inr m) # replicate n NotCalled)"
    using assms
    by (simp add: getModel_lookup_def first_attempt_loads [where cfg = cfg and m = m])
  have "run_schedule C env modelName (Call 0 # Finish 0 # map Call [1..<Suc n])
          (reg, replicate (Suc n) NotCalled)
        = foldl (sched_step C env modelName)
            (foldl (sched_step C env modelName) (reg, replicate (Suc n) NotCalled) [Call 0, Finish 0])
            (map Call [1..<Suc n])"
    by (simp add: run_schedule_def)
  also have "\<dots> = (?reg', Returned (Inr m) # replicate n (Returned (Inr m)) @ replicate (n - n) NotCalled)"
    unfolding two
    using calls_all_cached [where C = C and modelName = modelName and cfg = cfg and env = env
        and reg = ?reg' and m = m and n = n and k = n] assms(1) c by simp
  finally show ?thesis
    by (simp add: loadCount_def)
qed


lemma map_upt_update:
  "i < n \<Longrightarrow> (map f [0..<n])[i := v] = map (f(i := v)) [0..<n]"
  by (rule nth_equalityI) (auto simp: nth_list_update)

lemma map_upt_cong: "(\<And>j. j < n \<Longrightarrow> f j = g j) \<Longrightarrow> map f [0..<n] = map g [0..<n]"
  by simp

lemma map_upt_const: "map (\<lambda>j. c) [0..<n] = replicate n c"
  by (simp add: map_replicate_const)

lemma calls_any_order:
  assumes "C modelName = Some cfg" and "modelCache reg modelName = None"
  shows "foldl (sched_step C env modelName) (reg, replicate n NotCalled) (map Call order)
         = (reg, map (\<lambda>j. if j \<in> set order then InFlight else NotCalled) [0..<n])"
proof (induction order rule: rev_induct)
  case Nil
  then show ?case by (simp add: map_upt_const)
next
  case (snoc i order)
  show ?case
  proof (cases "i < n")
    case False
    then have "map (\<lambda>j. if j \<in> set (order @ [i]) then InFlight else NotCalled) [0..<n]
             = map (\<lambda>j. if j \<in> set order then InFlight else NotCalled) [0..<n]"
      by (intro map_upt_cong) auto
    then show ?thesis using snoc.IH False by simp
  next
    case True
    show ?thesis
    proof (cases "i \<in> set order")
      case True
      then have "map (\<lambda>j. if j \<in> set (order @ [i]) then InFlight else NotCalled) [0..<n]
             = map (\<lambda>j. if j \<in> set order then InFlight else NotCalled) [0..<n]"
        by (intro map_upt_cong) auto
      then show ?thesis using snoc.IH \<open>i < n\<close> True by simp
    next
      case False
      have "(map (\<lambda>j. if j \<in> set order then InFlight else NotCalled) [0..<n])[i := InFlight]
            = map (\<lambda>j. if j \<in> set (order @ [i]) then InFlight else NotCalled) [0..<n]"
        using \<open>i < n\<close> by (simp add: map_upt_update)
      then show ?thesis
        using snoc.IH \<open>i < n\<close> False assms by (simp add: getModel_lookup_def)
    qed
  qed
qed

lemma finishes_any_order:
  assumes "C modelName = Some cfg"
    and "fs_access env (path_join env (modelPath cfg))"
    and "0 < retryAttempts cfg"
    and "race env (''file://'' @ path_join env (modelPath cfg)) 1 = Loaded m"
  shows "\<exists>reg'. foldl (sched_step C env modelName) (reg, replicate n InFlight) (map Finish order)
                  = (reg', map (\<lambda>j. if j \<in> set order then Returned (Inr m) else InFlight) [0..<n])
               \<and> loadCount reg' = loadCount reg + card (set order \<inter> {0..<n})"
proof (induction order rule: rev_induct)
  case Nil
  then show ?case by (simp add: map_upt_const)
next
  case (snoc i order)
  then obtain reg' where
    run: "foldl (sched_step C env modelName) (reg, replicate n InFlight) (map Finish order)
            = (reg', map (\<lambda>j. if j \<in> set order then Returned (Inr m) else InFlight) [0..<n])"
    and cnt: "loadCount reg' = loadCount reg + card (set order \<inter> {0..<n})"
    by blast
  show ?case
  proof (cases "i < n \<and> i \<notin> set order")
    case False
    then have same: "map (\<lambda>j. if j \<in> set (order @ [i]) then Returned (Inr m) else InFlight) [0..<n]
             = map (\<lambda>j. if j \<in> set order then Returned (Inr m) else InFlight) [0..<n]"
      by (intro map_upt_cong) auto
    have card_same: "set (order @ [i]) \<inter> {0..<n} = set order \<inter> {0..<n}"
      using False by auto
    have "foldl (sched_step C env modelName) (reg, replicate n InFlight) (map Finish (order @ [i]))
          = (reg', map (\<lambda>j. if j \<in> set (order @ [i]) then Returned (Inr m) else InFlight) [0..<n])"
      using run False unfolding same by auto
    then show ?thesis using cnt card_same by auto
  next
    case True
    let ?reg'' = "\<lparr>modelCache = (modelCache reg')(modelName \<mapsto> m),
                   trace = trace reg' @ [LoadAttempt (''file://'' @ path_join env (modelPath cfg)) 1,
                                         Warmup modelName (warmupModel cfg m), CacheSet modelName]\<rparr>"
    have upd: "(map (\<lambda>j. if j \<in> set order then Returned (Inr m) else InFlight) [0..<n])[i := Returned (Inr m)]
            = map (\<lambda>j. if j \<in> set (order @ [i]) then Returned (Inr m) else InFlight) [0..<n]"
      using True by (simp add: map_upt_update)
    have "foldl (sched_step C env modelName) (reg, replicate n InFlight) (map Finish (order @ [i]))
          = (?reg'', map (\<lambda>j. if j \<in> set (order @ [i]) then Returned (Inr m) else InFlight) [0..<n])"
      using run True assms upd
      by (simp add: first_attempt_loads [where cfg = cfg and m = m])
    moreover have "set (order @ [i]) \<inter> {0..<n} = insert i (set order \<inter> {0..<n})"
      using True by auto
    then have "card (set (order @ [i]) \<inter> {0..<n}) = Suc (card (set order \<inter> {0..<n}))"
      using True by simp
    then have "loadCount ?reg'' = loadCount reg + card (set (order @ [i]) \<inter> {0..<n})"
      using cnt by (simp add: loadCount_def)
    ultimately show ?thesis by blast
  qed
qed

lemma overlapping_callers_any_order:
  assumes "C modelName = Some cfg"
    and "modelCache reg modelName = None"
    and "fs_access env (path_join env (modelPath cfg))"
    and "0 < retryAttempts cfg"
    and "race env (''file://'' @ path_join env (modelPath cfg)) 1 = Loaded m"
    and "set call_order = {0..<n}"
    and "set finish_order = {0..<n}"
  shows "loadCount (fst (run_schedule C env modelName (map Call call_order @ map Finish finish_order)
                          (reg, replicate n NotCalled))) = loadCount reg + n
       \<and> snd (run_schedule C env modelName (map Call call_order @ map Finish finish_order)
                (reg, replicate n NotCalled)) = replicate n (Returned (Inr m))"
proof -
  have "map (\<lambda>j. if j \<in> set call_order then InFlight else NotCalled) [0..<n]
          = map (\<lambda>j. InFlight) [0..<n]"
    by (intro map_upt_cong) (simp add: assms(6))
  then have c: "foldl (sched_step C env modelName) (reg, replicate n NotCalled) (map Call call_order)
         = (reg, replicate n InFlight)"
    using calls_any_order [where C = C and modelName = modelName and cfg = cfg and reg = reg
        and env = env and n = n and order = call_order] assms(1,2)
    by (simp only: map_upt_const)
  obtain reg' where
    f: "foldl (sched_step C env modelName) (reg, replicate n InFlight) (map Finish finish_order)
          = (reg', map (\<lambda>j. if j \<in> set finish_order then Returned (Inr m) else InFlight) [0..<n])"
    and cnt: "loadCount reg' = loadCount reg + card (set finish_order \<inter> {0..<n})"
    using finishes_any_order [where C = C and modelName = modelName and cfg = cfg and env = env
        and m = m and n = n and reg = reg and order = finish_order] assms(1,3,4,5)
    by blast
  have "map (\<lambda>j. if j \<in> set finish_order then Returned (Inr m) else InFlight) [0..<n]
             = map (\<lambda>j. Returned (Inr m)) [0..<n]"
    by (intro map_upt_cong) (simp add: assms(7))
  then have all: "map (\<lambda>j. if j \<in> set finish_order then Returned (Inr m) else InFlight) [0..<n]
             = replicate n (Returned (Inr m))"
    by (simp only: map_upt_const)
  show ?thesis
    using c f cnt all assms(7) by (simp add: run_schedule_def)
qed

text \<open>
  C4, as the code has it. \<open>getModel\<close> keeps no record of a load in flight: for a
  configured model whose file exists and whose first load attempt succeeds, when \<open>n\<close>
  callers call \<open>getModel\<close>, in any order, before any of their loads has finished, and
  the loads then finish in any order, each caller has run its own load, so \<open>n\<close> loads
  are performed, and each caller receives the model of its own load. Only callers that
  call after a load has finished are served from the cache: when the first caller's load
  finishes before the others call, one load is performed.
\<close>

theorem overlapping_callers_each_load:
  assumes "C modelName = Some cfg"
    and "modelCache reg modelName = None"
    and "fs_access env (path_join env (modelPath cfg))"
    and "0 < retryAttempts cfg"
    and "race env (''file://'' @ path_join env (modelPath cfg)) 1 = Loaded m"
    and "set call_order = {0..<n}"
    and "set finish_order = {0..<n}"
  shows "loadCount (fst (run_schedule C env modelName (map Call call_order @ map Finish finish_order)
                          (reg, replicate n NotCalled))) = loadCount reg + n
       \<and> snd (run_schedule C env modelName (map Call call_order @ map Finish finish_order)
                (reg, replicate n NotCalled)) = replicate n (Returned (Inr m))
       \<and> loadCount (fst (run_schedule C env modelName (Call 0 # Finish 0 # map Call [1..<Suc n])
                          (reg, replicate (Suc n) NotCalled))) = loadCount reg + 1
       \<and> snd (run_schedule C env modelName (Call 0 # Finish 0 # map Call [1..<Suc n])
                (reg, replicate (Suc n) NotCalled)) = replicate (Suc n) (Returned (Inr m))"
  using overlapping_callers_any_order [where C = C and modelName = modelName and cfg = cfg
      and env = env and reg = reg and m = m and n = n and call_order = call_order
      and finish_order = finish_order]
    sequential_callers_run [where C = C and modelName = modelName and cfg = cfg and env = env
      and reg = reg and m = m and n = n] assms
  by blast

lemma example_loader_facts:
  "MODEL_CONFIG ''yolov5'' = Some \<lparr>modelPath = ''../models/yolov5/yolov5_model.json'',
       warmupShape = [1, 640, 640, 3], timeout = 60000, retryAttempts = 3, retryDelay = 5000\<rparr>"
  "modelCache empty_registry ''yolov5'' = None"
  "fs_access example_loader_env (path_join example_loader_env p)"
  "race example_loader_env u k = Loaded example_model"
  "loadCount empty_registry = 0"
  by (simp_all add: MODEL_CONFIG_def empty_registry_def example_loader_env_def loadCount_def)

lemma two_callers:
  "set [1, 0] = {0..<(2::nat)}"
  "set [0, 1] = {0..<(2::nat)}"
  "replicate 2 x = [x, x]"
  by (auto simp: numeral_2_eq_2)

theorem overlapping_callers_each_load_witness:
  "MODEL_CONFIG ''yolov5'' = Some \<lparr>modelPath = ''../models/yolov5/yolov5_model.json'',
       warmupShape = [1, 640, 640, 3], timeout = 60000, retryAttempts = 3, retryDelay = 5000\<rparr>
   \<and> modelCache empty_registry ''yolov5'' = None
   \<and> race example_loader_env
        (''file://'' @ path_join example_loader_env ''../models/yolov5/yolov5_model.json'') 1
      = Loaded example_model
   \<and> set [1, 0] = {0..<(2::nat)}
   \<and> set [0, 1] = {0..<(2::nat)}
   \<and> loadCount (fst (run_schedule MODEL_CONFIG example_loader_env ''yolov5''
                      [Call 1, Call 0, Finish 0, Finish 1]
                      (empty_registry, [NotCalled, NotCalled]))) = 2
   \<and> snd (run_schedule MODEL_CONFIG example_loader_env ''yolov5''
            [Call 1, Call 0, Finish 0, Finish 1]
            (empty_registry, [NotCalled, NotCalled]))
      = [Returned (Inr example_model), Returned (Inr example_model)]"
  using overlapping_callers_each_load [where C = MODEL_CONFIG and modelName = "''yolov5''"
      and cfg = "\<lparr>modelPath = ''../models/yolov5/yolov5_model.json'',
                  warmupShape = [1, 640, 640, 3], timeout = 60000, retryAttempts = 3,
                  retryDelay = 5000\<rparr>"
      and env = example_loader_env and reg = empty_registry and m = example_model and n = 2
      and call_order = "[1, 0]" and finish_order = "[0, 1]"]
    example_loader_facts two_callers(1,2)
  by (simp add: two_callers(3))

text \<open>
  C4 as stated fails: two callers that both call before either load has finished cause
  two loads, not one.
\<close>

theorem single_flight_counterexample:
  "loadCount (fst (run_schedule MODEL_CONFIG example_loader_env ''yolov5''
                     [Call 0, Call 1, Finish 0, Finish 1]
                     (empty_registry, [NotCalled, NotCalled]))) = 2"
  using overlapping_callers_any_order [where C = MODEL_CONFIG and modelName = "''yolov5''"
      and cfg = "\<lparr>modelPath = ''../models/yolov5/yolov5_model.json'',
                  warmupShape = [1, 640, 640, 3], timeout = 60000, retryAttempts = 3,
                  retryDelay = 5000\<rparr>"
      and env = example_loader_env and reg = empty_registry and m = example_model and n = 2
      and call_order = "[0, 1]" and finish_order = "[0, 1]"]
    example_loader_facts two_callers(1,2)
  by (simp add: two_callers(3))

subsection \<open>Comparisons and the class index\<close>

lemma js_gt_irrefl: "\<not> js_gt a a"
  by (cases a) simp_all

lemma js_gt_val_irrefl: "\<not> js_gt_val c c"
  by (cases c) (simp_all add: js_gt_irrefl)










lemma modelEntry_eq:
  "modelEntry lm xs =
     (if lm < length xs then Inl (Error ''Maximum call stack size exceeded'')
      else Inr (entryAt xs (indexOf xs (max_of xs))))"
  by (simp add: modelEntry_def classIndex_def math_max_def)

lemma buildResults_Inr:
  assumes "buildResults lm d5 d7 t fn = Inr r"
  shows "modelEntry lm d5 = Inr (yolov5Analysis r) \<and> modelEntry lm d7 = Inr (yolov7Analysis r)
       \<and> analysis r = primaryAnalysis (yolov5Analysis r) (yolov7Analysis r)"
  using assms by (auto simp: buildResults_def split: sum.splits)




subsection \<open>The stages of a request\<close>

lemma normalizeAndBatch_eq:
  "normalizeAndBatch img w = (expandDims0 (div255 img), w\<lparr>numTensors := numTensors w + 1\<rparr>)"
  by (simp add: normalizeAndBatch_def alloc_def dispose_def Let_def)

lemma preprocessImage_cases:
  assumes "preprocessImage L p w = (r, w')"
  shows "(\<exists>e. r = Inl e \<and> w' = w) \<or> (\<exists>t. r = Inr t \<and> w' = w\<lparr>numTensors := numTensors w + 2\<rparr>)"
  using assms
  by (auto simp: preprocessImage_def normalizeAndBatch_eq alloc_def split: option.splits sum.splits)

lemma processImageBuffer_cases:
  assumes "processImageBuffer L b opts w = (r, w')"
  shows "(\<exists>e. r = Inl e \<and> w' = w) \<or> (\<exists>t. r = Inr t \<and> w' = w\<lparr>numTensors := numTensors w + 2\<rparr>)"
  using assms
  by (auto simp: processImageBuffer_def normalizeAndBatch_eq alloc_def split: option.splits sum.splits)

lemma processStreamFrame_cases:
  assumes "processStreamFrame L d w = (r, w')"
  shows "(\<exists>e. r = Inl e \<and> w' = w) \<or> (\<exists>t. r = Inr t \<and> w' = w\<lparr>numTensors := numTensors w + 2\<rparr>)"
  using assms processImageBuffer_cases
  by (cases d) (auto simp: processStreamFrame_def)

lemma predictBoth_cases:
  assumes "predictBoth y5 y7 t w = (r, w')"
  shows "(\<exists>e. r = Inl e
            \<and> w' = w\<lparr>calls := calls w @ [Predict ''yolov5'' (Inl e)]\<rparr>)
       \<or> (\<exists>e d5. r = Inl e
            \<and> w' = w\<lparr>numTensors := numTensors w + 1,
                      calls := calls w @ [Predict ''yolov5'' (Inr d5), Predict ''yolov7'' (Inl e)]\<rparr>)
       \<or> (\<exists>d5 d7. r = Inr (d5, d7)
            \<and> w' = w\<lparr>numTensors := numTensors w + 2,
                      calls := calls w @ [Predict ''yolov5'' (Inr d5), Predict ''yolov7'' (Inr d7)]\<rparr>)"
  using assms
  by (auto simp: predictBoth_def record_call_def alloc_def Let_def split: sum.splits)

lemma obtainModels_world:
  "snd (obtainModels S w) = w\<lparr>calls := calls w @ [GetModel ''yolov5'', GetModel ''yolov7'']\<rparr>"
  by (simp add: obtainModels_def record_call_def)

lemma detectStream_cases:
  assumes "detectStream L S d w = (r, w')"
  shows "\<exists>es k. run_shape r es k
           \<and> w' = w\<lparr>numTensors := numTensors w + k, calls := calls w @ es\<rparr>"
proof -
  obtain m w1 where om: "obtainModels S w = (m, w1)" by (cases "obtainModels S w")
  then have w1: "w1 = w\<lparr>calls := calls w @ [GetModel ''yolov5'', GetModel ''yolov7'']\<rparr>"
    using obtainModels_world [of S w] by simp
  show ?thesis
  proof (cases m)
    case (Inl e)
    then have "r = Inl e" "w' = w1" using assms om by (simp_all add: detectStream_def)
    then show ?thesis using w1 by (intro exI [of _ "[GetModel ''yolov5'', GetModel ''yolov7'']"] exI [of _ 0]) (simp add: run_shape_def)
  next
    case (Inr ms)
    obtain y5 y7 where ms: "ms = (y5, y7)" by (cases ms)
    show ?thesis
    proof (cases "split_comma_1 d")
      case None
      then have "\<exists>e. r = Inl e" "w' = w1" using assms om Inr ms by (auto simp: detectStream_def)
      then show ?thesis using w1 by (intro exI [of _ "[GetModel ''yolov5'', GetModel ''yolov7'']"] exI [of _ 0]) (auto simp: run_shape_def)
    next
      case (Some b)
      obtain pr w2 where ps: "processStreamFrame L (Buffer (base64_decode L b)) w1 = (pr, w2)"
        by (cases "processStreamFrame L (Buffer (base64_decode L b)) w1")
      from processStreamFrame_cases [OF ps]
      show ?thesis
      proof (elim disjE exE conjE)
        fix e assume "pr = Inl e" "w2 = w1"
        then have "r = Inl e" "w' = w1" using assms om Inr ms Some ps by (simp_all add: detectStream_def)
        then show ?thesis using w1 by (intro exI [of _ "[GetModel ''yolov5'', GetModel ''yolov7'']"] exI [of _ 0]) (simp add: run_shape_def)
      next
        fix t assume pr: "pr = Inr t" and w2: "w2 = w1\<lparr>numTensors := numTensors w1 + 2\<rparr>"
        then have pb: "predictBoth y5 y7 t w2 = (r, w')"
          using assms om Inr ms Some ps by (simp add: detectStream_def)
        from predictBoth_cases [OF pb]
        show ?thesis
        proof (elim disjE exE conjE)
          fix e assume "r = Inl e" "w' = w2\<lparr>calls := calls w2 @ [Predict ''yolov5'' (Inl e)]\<rparr>"
          then show ?thesis using w1 w2
            by (intro exI [of _ "[GetModel ''yolov5'', GetModel ''yolov7'', Predict ''yolov5'' (Inl e)]"] exI [of _ 2])
               (simp add: run_shape_def)
        next
          fix e d5 assume "r = Inl e" "w' = w2\<lparr>numTensors := numTensors w2 + 1,
                      calls := calls w2 @ [Predict ''yolov5'' (Inr d5), Predict ''yolov7'' (Inl e)]\<rparr>"
          then show ?thesis using w1 w2
            by (intro exI [of _ "[GetModel ''yolov5'', GetModel ''yolov7'', Predict ''yolov5'' (Inr d5), Predict ''yolov7'' (Inl e)]"] exI [of _ 3])
               (simp add: run_shape_def)
        next
          fix d5 d7 assume "r = Inr (d5, d7)" "w' = w2\<lparr>numTensors := numTensors w2 + 2,
                      calls := calls w2 @ [Predict ''yolov5'' (Inr d5), Predict ''yolov7'' (Inr d7)]\<rparr>"
          then show ?thesis using w1 w2
            by (intro exI [of _ "[GetModel ''yolov5'', GetModel ''yolov7'', Predict ''yolov5'' (Inr d5), Predict ''yolov7'' (Inr d7)]"] exI [of _ 4])
               (simp add: run_shape_def)
        qed
      qed
    qed
  qed
qed

lemma detectUpload_cases:
  assumes "detectUpload L S fp pp w = (r, w')"
  shows "\<exists>es k F. run_shape r es k
           \<and> w' = w\<lparr>files := F, numTensors := numTensors w + k, calls := calls w @ es\<rparr>"
proof (cases "files w fp")
  case None
  then have "\<exists>e. r = Inl e" "w' = w" using assms by (auto simp: detectUpload_def)
  then show ?thesis
    by (intro exI [of _ "[]"] exI [of _ 0] exI [of _ "files w"]) (auto simp: run_shape_def)
next
  case (Some content)
  show ?thesis
  proof (cases "sharp_resize L content \<lparr>rwidth = 640, rheight = 640, rfit = Contain, background = (0, 0, 0)\<rparr>")
    case (Inl e)
    then have "r = Inl e" "w' = w" using assms Some by (simp_all add: detectUpload_def)
    then show ?thesis
      by (intro exI [of _ "[]"] exI [of _ 0] exI [of _ "files w"]) (auto simp: run_shape_def)
  next
    case (Inr resized)
    let ?w0 = "w\<lparr>files := (files w)(pp \<mapsto> resized)\<rparr>"
    obtain m w1 where om: "obtainModels S ?w0 = (m, w1)" by (cases "obtainModels S ?w0")
    then have w1: "w1 = ?w0\<lparr>calls := calls w @ [GetModel ''yolov5'', GetModel ''yolov7'']\<rparr>"
      using obtainModels_world [of S ?w0] by simp
    show ?thesis
    proof (cases m)
      case (Inl e)
      then have "r = Inl e" "w' = w1" using assms Some Inr om by (simp_all add: detectUpload_def)
      then show ?thesis using w1
        by (intro exI [of _ "[GetModel ''yolov5'', GetModel ''yolov7'']"] exI [of _ 0]
              exI [of _ "(files w)(pp \<mapsto> resized)"]) (simp add: run_shape_def)
    next
      case ms: (Inr ms)
      obtain y5 y7 where yy: "ms = (y5, y7)" by (cases ms)
      have rd: "files w1 pp = Some resized" using w1 by simp
      obtain pr w2 where pp: "preprocessImage L pp w1 = (pr, w2)"
        by (cases "preprocessImage L pp w1")
      from preprocessImage_cases [OF pp]
      show ?thesis
      proof (elim disjE exE conjE)
        fix e assume "pr = Inl e" "w2 = w1"
        then have "r = Inl e" "w' = w1"
          using assms Some Inr om ms yy rd pp by (simp_all add: detectUpload_def)
        then show ?thesis using w1
          by (intro exI [of _ "[GetModel ''yolov5'', GetModel ''yolov7'']"] exI [of _ 0]
                exI [of _ "(files w)(pp \<mapsto> resized)"]) (simp add: run_shape_def)
      next
        fix t assume pr: "pr = Inr t" and w2: "w2 = w1\<lparr>numTensors := numTensors w1 + 2\<rparr>"
        then have pb: "predictBoth y5 y7 t w2 = (r, w')"
          using assms Some Inr om ms yy rd pp by (simp add: detectUpload_def)
        from predictBoth_cases [OF pb]
        show ?thesis
        proof (elim disjE exE conjE)
          fix e assume "r = Inl e" "w' = w2\<lparr>calls := calls w2 @ [Predict ''yolov5'' (Inl e)]\<rparr>"
          then show ?thesis using w1 w2
            by (intro exI [of _ "[GetModel ''yolov5'', GetModel ''yolov7'', Predict ''yolov5'' (Inl e)]"]
                  exI [of _ 2] exI [of _ "(files w)(pp \<mapsto> resized)"])
               (simp add: run_shape_def)
        next
          fix e d5 assume "r = Inl e" "w' = w2\<lparr>numTensors := numTensors w2 + 1,
                      calls := calls w2 @ [Predict ''yolov5'' (Inr d5), Predict ''yolov7'' (Inl e)]\<rparr>"
          then show ?thesis using w1 w2
            by (intro exI [of _ "[GetModel ''yolov5'', GetModel ''yolov7'', Predict ''yolov5'' (Inr d5), Predict ''yolov7'' (Inl e)]"]
                  exI [of _ 3] exI [of _ "(files w)(pp \<mapsto> resized)"])
               (simp add: run_shape_def)
        next
          fix d5 d7 assume "r = Inr (d5, d7)" "w' = w2\<lparr>numTensors := numTensors w2 + 2,
                      calls := calls w2 @ [Predict ''yolov5'' (Inr d5), Predict ''yolov7'' (Inr d7)]\<rparr>"
          then show ?thesis using w1 w2
            by (intro exI [of _ "[GetModel ''yolov5'', GetModel ''yolov7'', Predict ''yolov5'' (Inr d5), Predict ''yolov7'' (Inr d7)]"]
                  exI [of _ 4] exI [of _ "(files w)(pp \<mapsto> resized)"])
               (simp add: run_shape_def)
        qed
      qed
    qed
  qed
qed

lemma unlinks_eq:
  "foldl (\<lambda>w' p. unlink p w') w ps =
     w\<lparr>files := foldl (\<lambda>F p. F(p := None)) (files w) ps, calls := calls w @ map Unlink ps\<rparr>"
  by (induction ps arbitrary: w) (simp_all add: unlink_def record_call_def)

lemma cleanupFiles_eq:
  "cleanupFiles ps w =
     w\<lparr>files := foldl (\<lambda>F p. F(p := None)) (files w) (filter (\<lambda>p. p \<noteq> []) ps),
       calls := calls w @ map Unlink (filter (\<lambda>p. p \<noteq> []) ps)\<rparr>"
  by (simp add: cleanupFiles_def unlinks_eq)

lemma run_shape_failed_pass:
  "run_shape r es k \<Longrightarrow> Predict n (Inl e) \<in> set es \<Longrightarrow> r = Inl e"
  by (auto simp: run_shape_def)

lemma run_shape_both_passes:
  "run_shape r es k \<Longrightarrow> Predict ''yolov5'' (Inr d5) \<in> set es \<Longrightarrow>
   Predict ''yolov7'' (Inr d7) \<in> set es \<Longrightarrow> r = Inr (d5, d7) \<and> k = 4"
  by (auto simp: run_shape_def)

lemma run_shape_success:
  "run_shape (Inr (d5, d7)) es k \<Longrightarrow>
   es = [GetModel ''yolov5'', GetModel ''yolov7'',
         Predict ''yolov5'' (Inr d5), Predict ''yolov7'' (Inr d7)] \<and> k = 4"
  by (auto simp: run_shape_def)

lemma run_shape_no_unlink: "run_shape r es k \<Longrightarrow> filter isUnlink es = []"
  by (auto simp: run_shape_def)

lemma analyzeImage_outcomes:
  "(\<exists>st b. analyzeImage L S req w = ((st, b), w) \<and> st \<noteq> 200 \<and> st \<noteq> 500 \<and> data b = None)
   \<or> (\<exists>f r w1. req_file req = Some f
         \<and> detectUpload L S (path_resolve L (path f)) (path_resolve L (path f) @ ''_processed.jpg'') w
             = (r, w1)
         \<and> analyzeImage L S req w =
             (image_response L S f r,
              cleanupFiles [path_resolve L (path f), path_resolve L (path f) @ ''_processed.jpg''] w1))"
proof (cases "req_file req")
  case None
  then show ?thesis by (simp add: analyzeImage_def createResponse_def)
next
  case (Some f)
  let ?fp = "path_resolve L (path f)"
  show ?thesis
  proof (cases "files w ?fp")
    case None
    then show ?thesis using Some by (simp add: analyzeImage_def createResponse_def Let_def)
  next
    case content: (Some content)
    show ?thesis
    proof (cases "checkImageQuality L ?fp \<lparr>minSize = None, minWidth = None, minHeight = None\<rparr> w")
      case (Inl e)
      then show ?thesis using Some content
        by (simp add: analyzeImage_def createResponse_def Let_def)
    next
      case (Inr ok)
      obtain r w1 where d: "detectUpload L S ?fp (?fp @ ''_processed.jpg'') w = (r, w1)"
        by (cases "detectUpload L S ?fp (?fp @ ''_processed.jpg'') w")
      have "analyzeImage L S req w =
             (image_response L S f r, cleanupFiles [?fp, ?fp @ ''_processed.jpg''] w1)"
        using Some content Inr d
        by (cases r) (auto simp: analyzeImage_def image_response_def Let_def split: sum.splits)
      then show ?thesis using Some d by blast
    qed
  qed
qed

lemma analyzeStream_outcomes:
  "(\<exists>b. analyzeStream L S req w = ((400, b), w) \<and> data b = None)
   \<or> (\<exists>d r w1. detectStream L S d w = (r, w1)
         \<and> analyzeStream L S req w = (stream_response L S r, w1))"
proof (cases "imageData req = None \<or> imageData req = Some []")
  case True
  then show ?thesis by (auto simp: analyzeStream_def createResponse_def)
next
  case False
  obtain r w1 where d: "detectStream L S (with_default [] (imageData req)) w = (r, w1)"
    by (cases "detectStream L S (with_default [] (imageData req)) w")
  have "analyzeStream L S req w = (stream_response L S r, w1)"
    using False d by (cases r) (auto simp: analyzeStream_def stream_response_def split: sum.splits)
  then show ?thesis using d by blast
qed

lemma request_events_append: "calls w' = calls w @ es \<Longrightarrow> request_events w w' = es"
  by (simp add: request_events_def)

lemma request_events_same: "request_events w w = []"
  by (simp add: request_events_def)

lemma handler_summary:
  assumes "h = analyzeImage L S req w \<or> h = analyzeStream L S req w"
  shows "(snd h = w \<and> data (snd (fst h)) = None \<and> fst (fst h) \<noteq> 200 \<and> fst (fst h) \<noteq> 500)
       \<or> (\<exists>r es k us. run_shape r es k
            \<and> request_events w (snd h) = es @ map Unlink us
            \<and> numTensors (snd h) = numTensors w + k
            \<and> (fst h = stream_response L S r
                \<or> (\<exists>f. req_file req = Some f \<and> fst h = image_response L S f r)))"
proof (rule disjE [OF assms])
  assume h: "h = analyzeImage L S req w"
  from analyzeImage_outcomes [of L S req w] show ?thesis
  proof (elim disjE exE conjE)
    fix st b assume "analyzeImage L S req w = ((st, b), w)" "st \<noteq> 200" "st \<noteq> 500" "data b = None"
    then show ?thesis using h by auto
  next
    fix f r w1
    assume f: "req_file req = Some f"
      and d: "detectUpload L S (path_resolve L (path f)) (path_resolve L (path f) @ ''_processed.jpg'') w = (r, w1)"
      and a: "analyzeImage L S req w =
             (image_response L S f r,
              cleanupFiles [path_resolve L (path f), path_resolve L (path f) @ ''_processed.jpg''] w1)"
    from detectUpload_cases [OF d] obtain es k F where
      rs: "run_shape r es k"
      and w1: "w1 = w\<lparr>files := F, numTensors := numTensors w + k, calls := calls w @ es\<rparr>"
      by blast
    let ?us = "filter (\<lambda>p. p \<noteq> []) [path_resolve L (path f), path_resolve L (path f) @ ''_processed.jpg'']"
    have "calls (snd h) = calls w @ (es @ map Unlink ?us)"
      using h a w1 by (simp add: cleanupFiles_eq)
    then have ev: "request_events w (snd h) = es @ map Unlink ?us"
      by (rule request_events_append)
    have nt: "numTensors (snd h) = numTensors w + k"
      using h a w1 by (simp add: cleanupFiles_eq)
    have "fst h = image_response L S f r" using h a by simp
    with rs ev nt f show ?thesis by blast
  qed
next
  assume h: "h = analyzeStream L S req w"
  from analyzeStream_outcomes [of L S req w] show ?thesis
  proof (elim disjE exE conjE)
    fix b assume "analyzeStream L S req w = ((400, b), w)" "data b = None"
    then show ?thesis using h by auto
  next
    fix d r w1
    assume d: "detectStream L S d w = (r, w1)"
      and a: "analyzeStream L S req w = (stream_response L S r, w1)"
    from detectStream_cases [OF d] obtain es k where
      rs: "run_shape r es k"
      and w1: "w1 = w\<lparr>numTensors := numTensors w + k, calls := calls w @ es\<rparr>"
      by blast
    have "calls (snd h) = calls w @ (es @ map Unlink [])" using h a w1 by simp
    then have ev: "request_events w (snd h) = es @ map Unlink []"
      by (rule request_events_append)
    have nt: "numTensors (snd h) = numTensors w + k" using h a w1 by simp
    have "fst h = stream_response L S r" using h a by simp
    with rs ev nt show ?thesis by blast
  qed
qed

lemma response_success:
  assumes "resp = stream_response L S (Inr (d5, d7))
           \<or> (\<exists>f. req_file req = Some f \<and> resp = image_response L S f (Inr (d5, d7)))"
  shows "(\<exists>t fn r. buildResults (spread_limit L) d5 d7 t fn = Inr r
            \<and> fst resp = 200 \<and> data (snd resp) = Some r)
       \<or> (\<exists>t fn e. buildResults (spread_limit L) d5 d7 t fn = Inl e
            \<and> fst resp = 500 \<and> data (snd resp) = None \<and> error (snd resp) = Some (msg e))"
  using assms
proof (elim disjE exE conjE)
  assume r: "resp = stream_response L S (Inr (d5, d7))"
  show ?thesis
  proof (cases "buildResults (spread_limit L) d5 d7 (endTime S - startTime S) None")
    case (Inl e)
    with r have "fst resp = 500" "data (snd resp) = None" "error (snd resp) = Some (msg e)"
      by (simp_all add: stream_response_def createResponse_def)
    with Inl show ?thesis by blast
  next
    case (Inr res)
    with r have "fst resp = 200" "data (snd resp) = Some res"
      by (simp_all add: stream_response_def createResponse_def)
    with Inr show ?thesis by blast
  qed
next
  fix f assume r: "resp = image_response L S f (Inr (d5, d7))"
  show ?thesis
  proof (cases "buildResults (spread_limit L) d5 d7 (endTime S - startTime S)
                  (Some (upload_filename f))")
    case (Inl e)
    with r have "fst resp = 500" "data (snd resp) = None" "error (snd resp) = Some (msg e)"
      by (simp_all add: image_response_def createResponse_def)
    with Inl show ?thesis by blast
  next
    case (Inr res)
    with r have "fst resp = 200" "data (snd resp) = Some res"
      by (simp_all add: image_response_def createResponse_def)
    with Inr show ?thesis by blast
  qed
qed

lemma response_failure:
  assumes "resp = stream_response L S (Inl e)
           \<or> (\<exists>f. req_file req = Some f \<and> resp = image_response L S f (Inl e))"
  shows "fst resp = 500 \<and> data (snd resp) = None \<and> error (snd resp) = Some (msg e)"
  using assms by (auto simp: stream_response_def image_response_def createResponse_def)

lemma image_response_200:
  assumes "fst (image_response L S f r) = 200"
  shows "\<exists>d5 d7 res. r = Inr (d5, d7)
           \<and> buildResults (spread_limit L) d5 d7 (endTime S - startTime S)
               (Some (upload_filename f)) = Inr res
           \<and> data (snd (image_response L S f r)) = Some res"
  using assms
  by (auto simp: image_response_def createResponse_def split: sum.splits)

lemma handler_data:
  assumes "h = analyzeImage L S req w \<or> h = analyzeStream L S req w"
    and "data (snd (fst h)) = Some r"
  shows "\<exists>d5 d7 t fn. buildResults (spread_limit L) d5 d7 t fn = Inr r"
proof -
  from handler_summary [OF assms(1)] assms(2)
  obtain r' es k us where rs: "run_shape r' es k"
    and resp: "fst h = stream_response L S r' \<or> (\<exists>f. req_file req = Some f \<and> fst h = image_response L S f r')"
    by auto
  show ?thesis
  proof (cases r')
    case (Inl e)
    with resp have "data (snd (fst h)) = None"
      using response_failure [of "fst h" L S e req] by simp
    with assms(2) show ?thesis by simp
  next
    case (Inr dd)
    obtain d5 d7 where "dd = (d5, d7)" by (cases dd)
    with Inr resp have "(\<exists>t fn r. buildResults (spread_limit L) d5 d7 t fn = Inr r
            \<and> fst (fst h) = 200 \<and> data (snd (fst h)) = Some r)
       \<or> (\<exists>t fn e. buildResults (spread_limit L) d5 d7 t fn = Inl e
            \<and> fst (fst h) = 500 \<and> data (snd (fst h)) = None \<and> error (snd (fst h)) = Some (msg e))"
      using response_success [of "fst h" L S d5 d7 req] by simp
    with assms(2) show ?thesis by auto
  qed
qed

lemma unlink_not_predict: "Predict n x \<in> set (es @ map Unlink us) \<longleftrightarrow> Predict n x \<in> set es"
  by auto

lemma show_nat_constants: "show_nat 10240 = ''10240''" "show_nat 224 = ''224''"
  by (simp_all add: show_nat.simps digit_char_def)


subsection \<open>The handlers on the examples\<close>

lemmas handler_defs =
  analyzeImage_def analyzeStream_def example_libs_def example_request_def example_world_def
  checkImageQuality_def qualityChecks_def with_default_def detectUpload_def detectStream_def
  obtainModels_def promise_all2_def record_call_def preprocessImage_def processStreamFrame_def
  processImageBuffer_def split_comma_1_def normalizeAndBatch_eq alloc_def predictBoth_def
  createResponse_def cleanupFiles_def unlink_def request_events_def Let_def

lemmas output_defs =
  tie_yolov5_output_def tie_yolov7_output_def agreeing_yolov5_output_def
  agreeing_yolov7_output_def late_blight_output_def nan_output_def

lemma output_lengths:
  "length tie_yolov5_output = 2" "length tie_yolov7_output = 2"
  "length agreeing_yolov5_output = 2" "length agreeing_yolov7_output = 2"
  "length nan_output = 2" "length long_output = 130000"
  by (simp_all add: output_defs long_output_def)

lemma example_indices:
  "indexOf tie_yolov5_output (max_of tie_yolov5_output) = 0"
  "indexOf tie_yolov7_output (max_of tie_yolov7_output) = 1"
  "indexOf agreeing_yolov5_output (max_of agreeing_yolov5_output) = 1"
  "indexOf agreeing_yolov7_output (max_of agreeing_yolov7_output) = 1"
  "indexOf nan_output (max_of nan_output) = -1"
  by (simp_all add: indexOf_def max_of_def js_max2_def js_seq_def output_defs)

lemma example_entries:
  "confidence (entryAt tie_yolov5_output 0) = Some (Fin (42 / 100))"
  "confidence (entryAt tie_yolov7_output 1) = Some (Fin (42 / 100))"
  "confidence (entryAt agreeing_yolov5_output 1) = Some (Fin (91 / 100))"
  "confidence (entryAt agreeing_yolov7_output 1) = Some (Fin (77 / 100))"
  "confidence (entryAt nan_output (-1)) = None"
  "disease (entryAt tie_yolov5_output 0) = ''Early Blight''"
  "disease (entryAt tie_yolov7_output 1) = ''Healthy''"
  "disease (entryAt nan_output (-1)) = ''Unknown''"
  by (simp_all add: entryAt_def js_index_def diseaseName_def labelMap_def Let_def output_defs)

lemma buildResults_tie:
  "buildResults 125000 tie_yolov5_output tie_yolov7_output 250 (Some ''plant-1.jpg'')
     = Inr tie_results"
  by (simp add: buildResults_def modelEntry_eq output_lengths example_indices tie_results_def
      primaryAnalysis_def example_entries)

lemma example_image_tie:
  "fst (analyzeImage example_libs tie_services example_request (example_world 20000)) =
     (200, \<lparr>success = True, data = Some tie_results,
            message = Some ''Image analysis completed successfully'', error = None\<rparr>)"
  "request_events (example_world 20000)
     (snd (analyzeImage example_libs tie_services example_request (example_world 20000))) =
     [GetModel ''yolov5'', GetModel ''yolov7'',
      Predict ''yolov5'' (Inr tie_yolov5_output),
      Predict ''yolov7'' (Inr tie_yolov7_output),
      Unlink ''/uploads/plant-1.jpg'', Unlink ''/uploads/plant-1.jpg_processed.jpg'']"
  "numTensors (snd (analyzeImage example_libs tie_services example_request (example_world 20000))) = 4"
  "files (snd (analyzeImage example_libs tie_services example_request (example_world 20000)))
     ''/uploads/plant-1.jpg'' = None"
  "files (snd (analyzeImage example_libs tie_services example_request (example_world 20000)))
     ''/uploads/plant-1.jpg_processed.jpg'' = None"
  by (simp_all add: handler_defs tie_services_def buildResults_tie)

lemma example_image_one_failing:
  "fst (analyzeImage example_libs one_failing_services example_request (example_world 20000)) =
     (500, \<lparr>success = False, data = None, message = Some ''Error processing image'',
            error = Some ''yolov7 forward pass failed''\<rparr>)"
  "request_events (example_world 20000)
     (snd (analyzeImage example_libs one_failing_services example_request (example_world 20000))) =
     [GetModel ''yolov5'', GetModel ''yolov7'',
      Predict ''yolov5'' (Inr late_blight_output),
      Predict ''yolov7'' (Inl (Error ''yolov7 forward pass failed'')),
      Unlink ''/uploads/plant-1.jpg'', Unlink ''/uploads/plant-1.jpg_processed.jpg'']"
  by (simp_all add: handler_defs one_failing_services_def)

lemma show_nat_100: "show_nat 100 = ''100''"
  by (simp add: show_nat.simps digit_char_def)

lemma example_image_small:
  "analyzeImage example_libs tie_services example_request (example_world 100) =
     ((400, \<lparr>success = False, data = None, message = Some ''Image quality check failed'',
             error = Some ''Image file too small (100 bytes). Minimum size: 10240 bytes''\<rparr>),
      example_world 100)"
  by (simp add: handler_defs show_nat_100 show_nat_constants)


lemma example_stream_nan:
  "fst (fst (analyzeStream example_libs nan_output_services example_request (example_world 0)))
     = 200"
  "request_events (example_world 0)
     (snd (analyzeStream example_libs nan_output_services example_request (example_world 0))) =
     [GetModel ''yolov5'', GetModel ''yolov7'',
      Predict ''yolov5'' (Inr nan_output),
      Predict ''yolov7'' (Inr agreeing_yolov7_output)]"
  "map_option (confidence \<circ> yolov5Analysis)
     (data (snd (fst (analyzeStream example_libs nan_output_services example_request
                        (example_world 0))))) = Some None"
  "map_option (disease \<circ> yolov5Analysis)
     (data (snd (fst (analyzeStream example_libs nan_output_services example_request
                        (example_world 0))))) = Some ''Unknown''"
  "map_option (confidence \<circ> analysis)
     (data (snd (fst (analyzeStream example_libs nan_output_services example_request
                        (example_world 0))))) = Some (Some (Fin (77 / 100)))"
  "map_option (model \<circ> analysis)
     (data (snd (fst (analyzeStream example_libs nan_output_services example_request
                        (example_world 0))))) = Some (Some ''YOLOv7'')"
  by (simp_all add: handler_defs nan_output_services_def buildResults_def modelEntry_eq
      output_lengths example_indices primaryAnalysis_def example_entries)



lemma example_paths: "path_resolve example_libs p = p"
  by (simp add: example_libs_def)


subsection \<open>Primary result\<close>

text \<open>
  C1, as the code has it. In a successful response of \<open>analyzeImage\<close> or
  \<open>analyzeStream\<close> the primary result is YOLOv5's entry exactly when YOLOv5's confidence
  is strictly greater than YOLOv7's; in every other case it is YOLOv7's entry. In
  particular, on an exact tie of the two confidences the primary result is that of
  YOLOv7, the model evaluated last, every time.
\<close>

theorem primary_selection_rule:
  assumes "h = analyzeImage L S req w \<or> h = analyzeStream L S req w"
    and "data (snd (fst h)) = Some r"
  shows "(js_gt_val (confidence (yolov5Analysis r)) (confidence (yolov7Analysis r)) \<longrightarrow>
            analysis r = (yolov5Analysis r)\<lparr>model := Some ''YOLOv5''\<rparr>)
       \<and> (\<not> js_gt_val (confidence (yolov5Analysis r)) (confidence (yolov7Analysis r)) \<longrightarrow>
            analysis r = (yolov7Analysis r)\<lparr>model := Some ''YOLOv7''\<rparr>)
       \<and> (confidence (yolov5Analysis r) = confidence (yolov7Analysis r) \<longrightarrow>
            analysis r = (yolov7Analysis r)\<lparr>model := Some ''YOLOv7''\<rparr>)"
proof -
  from handler_data [OF assms] obtain d5 d7 t fn
    where "buildResults (spread_limit L) d5 d7 t fn = Inr r" by blast
  then have "analysis r = primaryAnalysis (yolov5Analysis r) (yolov7Analysis r)"
    by (simp add: buildResults_Inr)
  then show ?thesis
    using js_gt_val_irrefl [of "confidence (yolov7Analysis r)"]
    by (auto simp: primaryAnalysis_def)
qed

theorem primary_selection_rule_witness:
  "data (snd (fst (analyzeImage example_libs tie_services example_request (example_world 20000))))
     = Some tie_results
   \<and> confidence (yolov5Analysis tie_results) = confidence (yolov7Analysis tie_results)
   \<and> analysis tie_results = (yolov7Analysis tie_results)\<lparr>model := Some ''YOLOv7''\<rparr>"
proof -
  let ?h = "analyzeImage example_libs tie_services example_request (example_world 20000)"
  have d: "data (snd (fst ?h)) = Some tie_results" by (simp add: example_image_tie)
  have c: "confidence (yolov5Analysis tie_results) = confidence (yolov7Analysis tie_results)"
    by (simp add: tie_results_def example_entries)
  from primary_selection_rule [where h = ?h and L = example_libs and S = tie_services
      and req = example_request and w = "example_world 20000" and r = tie_results] d c
  show ?thesis by blast
qed

text \<open>
  C1 as stated fails: with both confidences equal to 0.42, the primary result is the one
  of YOLOv7 (label "Healthy"), not the one of YOLOv5.
\<close>

theorem primary_tie_counterexample:
  "map_option (confidence \<circ> yolov5Analysis)
     (data (snd (fst (analyzeImage example_libs tie_services example_request (example_world 20000)))))
     = Some (Some (Fin (42 / 100)))
   \<and> map_option (confidence \<circ> yolov7Analysis)
     (data (snd (fst (analyzeImage example_libs tie_services example_request (example_world 20000)))))
     = Some (Some (Fin (42 / 100)))
   \<and> map_option (model \<circ> analysis)
     (data (snd (fst (analyzeImage example_libs tie_services example_request (example_world 20000)))))
     = Some (Some ''YOLOv7'')
   \<and> map_option (disease \<circ> analysis)
     (data (snd (fst (analyzeImage example_libs tie_services example_request (example_world 20000)))))
     = Some ''Healthy''"
  by (simp add: example_image_tie tie_results_def example_entries)

subsection \<open>Both forward passes succeed\<close>









subsection \<open>Failure of a forward pass\<close>

text \<open>
  C2, as the code has it. When a forward pass of a request to \<open>analyzeImage\<close> throws,
  the whole request is aborted: the response is the 500 failure "Error processing image"
  with the message of that error and without any per-model result. A success response
  is sent only when both forward passes have succeeded, and then it carries both entries.
\<close>

theorem forward_failure_aborts_request:
  "(Predict n (Inl e) \<in> set (request_events w (snd (analyzeImage L S req w))) \<longrightarrow>
      fst (analyzeImage L S req w) =
        (500, \<lparr>success = False, data = None, message = Some ''Error processing image'',
               error = Some (msg e)\<rparr>))
   \<and> (fst (fst (analyzeImage L S req w)) = 200 \<longrightarrow>
        (\<exists>d5 d7. Predict ''yolov5'' (Inr d5) \<in> set (request_events w (snd (analyzeImage L S req w)))
               \<and> Predict ''yolov7'' (Inr d7) \<in> set (request_events w (snd (analyzeImage L S req w)))
               \<and> (\<exists>r. data (snd (fst (analyzeImage L S req w))) = Some r
                      \<and> modelEntry (spread_limit L) d5 = Inr (yolov5Analysis r)
                      \<and> modelEntry (spread_limit L) d7 = Inr (yolov7Analysis r))))"
proof -
  let ?h = "analyzeImage L S req w"
  from analyzeImage_outcomes [of L S req w] show ?thesis
  proof (elim disjE exE conjE)
    fix st b assume a: "analyzeImage L S req w = ((st, b), w)" "st \<noteq> 200" "st \<noteq> 500" "data b = None"
    then show ?thesis by (auto simp: request_events_same)
  next
    fix f r w1
    assume f: "req_file req = Some f"
      and d: "detectUpload L S (path_resolve L (path f)) (path_resolve L (path f) @ ''_processed.jpg'') w = (r, w1)"
      and a: "analyzeImage L S req w =
             (image_response L S f r,
              cleanupFiles [path_resolve L (path f), path_resolve L (path f) @ ''_processed.jpg''] w1)"
    from detectUpload_cases [OF d] obtain es k F where
      rs: "run_shape r es k"
      and w1: "w1 = w\<lparr>files := F, numTensors := numTensors w + k, calls := calls w @ es\<rparr>"
      by blast
    let ?us = "filter (\<lambda>p. p \<noteq> []) [path_resolve L (path f), path_resolve L (path f) @ ''_processed.jpg'']"
    have "calls (snd ?h) = calls w @ (es @ map Unlink ?us)"
      using a w1 by (simp add: cleanupFiles_eq)
    then have ev: "request_events w (snd ?h) = es @ map Unlink ?us"
      by (rule request_events_append)
    have part1: "Predict n (Inl e) \<in> set (request_events w (snd ?h)) \<longrightarrow>
      fst ?h = (500, \<lparr>success = False, data = None, message = Some ''Error processing image'',
               error = Some (msg e)\<rparr>)"
    proof
      assume "Predict n (Inl e) \<in> set (request_events w (snd ?h))"
      then have "Predict n (Inl e) \<in> set es" unfolding ev unlink_not_predict .
      with rs have "r = Inl e" by (rule run_shape_failed_pass)
      then show "fst ?h = (500, \<lparr>success = False, data = None, message = Some ''Error processing image'',
               error = Some (msg e)\<rparr>)"
        using a by (simp add: image_response_def createResponse_def)
    qed
    have part2: "fst (fst ?h) = 200 \<longrightarrow>
        (\<exists>d5 d7. Predict ''yolov5'' (Inr d5) \<in> set (request_events w (snd ?h))
               \<and> Predict ''yolov7'' (Inr d7) \<in> set (request_events w (snd ?h))
               \<and> (\<exists>r. data (snd (fst ?h)) = Some r
                      \<and> modelEntry (spread_limit L) d5 = Inr (yolov5Analysis r)
                      \<and> modelEntry (spread_limit L) d7 = Inr (yolov7Analysis r)))"
    proof
      assume st: "fst (fst ?h) = 200"
      then have "fst (image_response L S f r) = 200" using a by simp
      from image_response_200 [OF this] obtain d5 d7 res where r: "r = Inr (d5, d7)"
        and b: "buildResults (spread_limit L) d5 d7 (endTime S - startTime S)
                  (Some (upload_filename f)) = Inr res"
        and dt: "data (snd (image_response L S f r)) = Some res"
        by blast
      from r rs have es: "es = [GetModel ''yolov5'', GetModel ''yolov7'',
         Predict ''yolov5'' (Inr d5), Predict ''yolov7'' (Inr d7)]"
        by (simp add: run_shape_success)
      have "data (snd (fst ?h)) = Some res" using a dt by simp
      moreover have "modelEntry (spread_limit L) d5 = Inr (yolov5Analysis res)"
        "modelEntry (spread_limit L) d7 = Inr (yolov7Analysis res)"
        using buildResults_Inr [OF b] by blast+
      moreover have "Predict ''yolov5'' (Inr d5) \<in> set (request_events w (snd ?h))"
        "Predict ''yolov7'' (Inr d7) \<in> set (request_events w (snd ?h))"
        unfolding ev es by simp_all
      ultimately show "\<exists>d5 d7. Predict ''yolov5'' (Inr d5) \<in> set (request_events w (snd ?h))
               \<and> Predict ''yolov7'' (Inr d7) \<in> set (request_events w (snd ?h))
               \<and> (\<exists>r. data (snd (fst ?h)) = Some r
                      \<and> modelEntry (spread_limit L) d5 = Inr (yolov5Analysis r)
                      \<and> modelEntry (spread_limit L) d7 = Inr (yolov7Analysis r))"
        by blast
    qed
    from part1 part2 show ?thesis by blast
  qed
qed

theorem forward_failure_aborts_request_witness:
  "Predict ''yolov7'' (Inl (Error ''yolov7 forward pass failed''))
     \<in> set (request_events (example_world 20000)
              (snd (analyzeImage example_libs one_failing_services example_request
                      (example_world 20000))))
   \<and> fst (analyzeImage example_libs one_failing_services example_request (example_world 20000))
     = (500, \<lparr>success = False, data = None, message = Some ''Error processing image'',
              error = Some ''yolov7 forward pass failed''\<rparr>)
   \<and> fst (fst (analyzeImage example_libs tie_services example_request (example_world 20000))) = 200
   \<and> Predict ''yolov5'' (Inr tie_yolov5_output)
     \<in> set (request_events (example_world 20000)
              (snd (analyzeImage example_libs tie_services example_request (example_world 20000))))"
proof -
  have ev: "Predict ''yolov7'' (Inl (Error ''yolov7 forward pass failed''))
     \<in> set (request_events (example_world 20000)
              (snd (analyzeImage example_libs one_failing_services example_request
                      (example_world 20000))))"
    by (simp add: example_image_one_failing)
  from forward_failure_aborts_request [where n = "''yolov7''"
      and e = "Error ''yolov7 forward pass failed''" and w = "example_world 20000"
      and L = example_libs and S = one_failing_services and req = example_request] ev
  have "fst (analyzeImage example_libs one_failing_services example_request (example_world 20000))
     = (500, \<lparr>success = False, data = None, message = Some ''Error processing image'',
              error = Some (msg (Error ''yolov7 forward pass failed''))\<rparr>)"
    by blast
  with ev show ?thesis by (simp add: example_image_tie)
qed

text \<open>
  C2 as stated fails: YOLOv5 succeeds (class 2, confidence 0.60), YOLOv7 throws, and the
  response is a 500 failure without YOLOv5's result.
\<close>

theorem one_failing_model_counterexample:
  "fst (analyzeImage example_libs one_failing_services example_request (example_world 20000))
     = (500, \<lparr>success = False, data = None, message = Some ''Error processing image'',
              error = Some ''yolov7 forward pass failed''\<rparr>)"
  by (simp add: example_image_one_failing)

subsection \<open>Release of request resources\<close>

text \<open>
  The two exits of \<open>analyzeImage\<close> that call \<open>cleanupFiles\<close>: when the handler answers
  with a success (200) or with the failure of its \<open>catch\<close> block (500), it has called
  \<open>fs.unlink\<close> exactly once for the upload and once for its processed copy, and neither
  file exists afterwards. No tensor is released on these exits: the number of live
  tensors does not decrease, and a successful request leaves four more than it found.
\<close>

lemma cleanup_on_completed_paths:
  assumes "req_file req = Some f"
    and "path_resolve L (path f) \<noteq> []"
    and "fst (fst (analyzeImage L S req w)) = 200 \<or> fst (fst (analyzeImage L S req w)) = 500"
  shows "filter isUnlink (request_events w (snd (analyzeImage L S req w)))
           = [Unlink (path_resolve L (path f)), Unlink (path_resolve L (path f) @ ''_processed.jpg'')]
       \<and> files (snd (analyzeImage L S req w)) (path_resolve L (path f)) = None
       \<and> files (snd (analyzeImage L S req w)) (path_resolve L (path f) @ ''_processed.jpg'') = None
       \<and> numTensors w \<le> numTensors (snd (analyzeImage L S req w))
       \<and> (fst (fst (analyzeImage L S req w)) = 200 \<longrightarrow>
            numTensors (snd (analyzeImage L S req w)) = numTensors w + 4)"
proof -
  let ?h = "analyzeImage L S req w"
  let ?fp = "path_resolve L (path f)"
  let ?pp = "path_resolve L (path f) @ ''_processed.jpg''"
  from analyzeImage_outcomes [of L S req w] show ?thesis
  proof (elim disjE exE conjE)
    fix st b assume "analyzeImage L S req w = ((st, b), w)" "st \<noteq> 200" "st \<noteq> 500" "data b = None"
    then show ?thesis using assms(3) by simp
  next
    fix f' r w1
    assume f': "req_file req = Some f'"
      and d: "detectUpload L S (path_resolve L (path f')) (path_resolve L (path f') @ ''_processed.jpg'') w = (r, w1)"
      and a: "analyzeImage L S req w =
             (image_response L S f' r,
              cleanupFiles [path_resolve L (path f'), path_resolve L (path f') @ ''_processed.jpg''] w1)"
    from f' assms(1) have ff: "f' = f" by simp
    from detectUpload_cases [OF d] obtain es k F where
      rs: "run_shape r es k"
      and w1: "w1 = w\<lparr>files := F, numTensors := numTensors w + k, calls := calls w @ es\<rparr>"
      by blast
    have flt: "filter (\<lambda>p. p \<noteq> []) [?fp, ?pp] = [?fp, ?pp]" using assms(2) by simp
    have cl: "snd ?h = w\<lparr>files := F(?fp := None, ?pp := None), numTensors := numTensors w + k,
                        calls := calls w @ (es @ [Unlink ?fp, Unlink ?pp])\<rparr>"
      using a w1 flt unfolding ff by (simp add: cleanupFiles_eq)
    then have "calls (snd ?h) = calls w @ (es @ [Unlink ?fp, Unlink ?pp])" by simp
    then have ev: "request_events w (snd ?h) = es @ [Unlink ?fp, Unlink ?pp]"
      by (rule request_events_append)
    have u: "filter isUnlink (request_events w (snd ?h)) = [Unlink ?fp, Unlink ?pp]"
      unfolding ev using run_shape_no_unlink [OF rs] by simp
    have f1: "files (snd ?h) ?fp = None" and f2: "files (snd ?h) ?pp = None"
      by (simp_all add: cl)
    have n: "numTensors (snd ?h) = numTensors w + k" by (simp add: cl)
    have four: "fst (fst ?h) = 200 \<longrightarrow> k = 4"
    proof
      assume "fst (fst ?h) = 200"
      then have "fst (image_response L S f' r) = 200" using a by simp
      from image_response_200 [OF this] obtain d5 d7 where "r = Inr (d5, d7)" by blast
      with rs show "k = 4" by (simp add: run_shape_success)
    qed
    from u f1 f2 n four show ?thesis by simp
  qed
qed

lemma cleanup_on_completed_paths_example:
  "req_file example_request
     = Some \<lparr>path = ''/uploads/plant-1.jpg'', upload_filename = ''plant-1.jpg''\<rparr>
   \<and> path_resolve example_libs ''/uploads/plant-1.jpg'' \<noteq> []
   \<and> fst (fst (analyzeImage example_libs tie_services example_request (example_world 20000))) = 200
   \<and> filter isUnlink (request_events (example_world 20000)
        (snd (analyzeImage example_libs tie_services example_request (example_world 20000))))
      = [Unlink ''/uploads/plant-1.jpg'', Unlink ''/uploads/plant-1.jpg_processed.jpg'']
   \<and> numTensors (snd (analyzeImage example_libs tie_services example_request (example_world 20000)))
      = numTensors (example_world 20000) + 4"
proof -
  have f: "req_file example_request
     = Some \<lparr>path = ''/uploads/plant-1.jpg'', upload_filename = ''plant-1.jpg''\<rparr>"
    by (simp add: example_request_def)
  have p: "path_resolve example_libs (path \<lparr>path = ''/uploads/plant-1.jpg'', upload_filename = ''plant-1.jpg''\<rparr>) \<noteq> []"
    by (simp add: example_paths)
  have s: "fst (fst (analyzeImage example_libs tie_services example_request (example_world 20000))) = 200
     \<or> fst (fst (analyzeImage example_libs tie_services example_request (example_world 20000))) = 500"
    by (simp add: example_image_tie)
  from cleanup_on_completed_paths [OF f p s] f
  show ?thesis by (simp add: example_paths example_image_tie(1))
qed

text \<open>
  C3. Every temporary file and every tensor of a request should be released on every
  exit. The handler does not achieve this. For an upload of 100 bytes the quality check
  fails and the handler returns 400 from inside its \<open>try\<close> block without calling
  \<open>cleanupFiles\<close>: no unlink is issued and the upload, already registered for cleanup,
  stays on disk. For an upload that passes, the request succeeds and, the \<open>tf.dispose\<close>
  call being commented out, leaves four tensors allocated that were not there before.
\<close>

theorem request_resources_left_allocated:
  "fst (fst (analyzeImage example_libs tie_services example_request (example_world 100))) = 400
   \<and> request_events (example_world 100)
        (snd (analyzeImage example_libs tie_services example_request (example_world 100))) = []
   \<and> files (snd (analyzeImage example_libs tie_services example_request (example_world 100)))
       ''/uploads/plant-1.jpg'' = Some (replicate 100 0)
   \<and> numTensors (example_world 20000) = 0
   \<and> fst (fst (analyzeImage example_libs tie_services example_request (example_world 20000))) = 200
   \<and> numTensors (snd (analyzeImage example_libs tie_services example_request (example_world 20000)))
       = 4"
  by (simp add: example_image_small example_image_tie request_events_same)
     (simp add: example_world_def)

subsection \<open>Quality check\<close>

text \<open>
  C9. For an uploaded file that exists and is smaller than 10240 bytes, or whose width or
  height is below 224 pixels, \<open>analyzeImage\<close> answers 400 "Image quality check failed"
  with the corresponding error message, and leaves the world as it was: no model is
  obtained, no forward pass runs.
\<close>

theorem quality_rejection_before_models:
  assumes "req_file req = Some f"
    and "files w (path_resolve L (path f)) = Some content"
    and "length content < 10240 \<or> (sharp_metadata L content = Inr (mw, mh) \<and> (mw < 224 \<or> mh < 224))"
  shows "analyzeImage L S req w =
           ((400, \<lparr>success = False, data = None, message = Some ''Image quality check failed'',
                   error = Some (if length content < 10240
                                 then ''Image file too small ('' @ show_nat (length content)
                                      @ '' bytes). Minimum size: 10240 bytes''
                                 else ''Image dimensions too small ('' @ show_nat mw @ ''x''
                                      @ show_nat mh @ ''). Minimum: 224x224'')\<rparr>), w)
       \<and> request_events w (snd (analyzeImage L S req w)) = []"
proof -
  let ?fp = "path_resolve L (path f)"
  let ?e = "Error (if length content < 10240
                   then ''Image file too small ('' @ show_nat (length content)
                        @ '' bytes). Minimum size: 10240 bytes''
                   else ''Image dimensions too small ('' @ show_nat mw @ ''x''
                        @ show_nat mh @ ''). Minimum: 224x224'')"
  have q: "qualityChecks L ?fp 10240 224 224 w = Inl ?e"
    using assms(2,3) by (auto simp: qualityChecks_def show_nat_constants)
  have inc: "str_includes (msg ?e) ''Image''" by simp
  have "checkImageQuality L ?fp \<lparr>minSize = None, minWidth = None, minHeight = None\<rparr> w = Inl ?e"
    unfolding checkImageQuality_def using q inc by (simp add: with_default_def)
  then have "analyzeImage L S req w =
      ((400, createResponse False None ''Image quality check failed'' (Some ?e)), w)"
    using assms(1,2) by (simp add: analyzeImage_def Let_def)
  then show ?thesis
    by (simp add: createResponse_def request_events_same)
qed

theorem quality_rejection_before_models_witness:
  "req_file example_request
     = Some \<lparr>path = ''/uploads/plant-1.jpg'', upload_filename = ''plant-1.jpg''\<rparr>
   \<and> files (example_world 100) ''/uploads/plant-1.jpg'' = Some (replicate 100 0)
   \<and> length (replicate 100 (0 :: 8 word)) < 10240
   \<and> analyzeImage example_libs tie_services example_request (example_world 100) =
       ((400, \<lparr>success = False, data = None, message = Some ''Image quality check failed'',
               error = Some ''Image file too small (100 bytes). Minimum size: 10240 bytes''\<rparr>),
        example_world 100)
   \<and> request_events (example_world 100)
        (snd (analyzeImage example_libs tie_services example_request (example_world 100))) = []"
proof -
  have f: "req_file example_request
     = Some \<lparr>path = ''/uploads/plant-1.jpg'', upload_filename = ''plant-1.jpg''\<rparr>"
    by (simp add: example_request_def)
  have c: "files (example_world 100)
             (path_resolve example_libs (path \<lparr>path = ''/uploads/plant-1.jpg'', upload_filename = ''plant-1.jpg''\<rparr>))
           = Some (replicate 100 0)"
    by (simp add: example_world_def example_paths)
  have l: "length (replicate 100 (0 :: 8 word)) < 10240
           \<or> (sharp_metadata example_libs (replicate 100 0) = Inr (800, 600) \<and> (800 < (224::nat) \<or> 600 < (224::nat)))"
    by simp
  from quality_rejection_before_models [OF f c l, of tie_services] f c
  show ?thesis by (simp add: show_nat_100 example_paths request_events_same)
qed

subsection \<open>Normalization\<close>




end
